theory Spec2Isabelle
  imports Main "HOL-Library.Word"
begin

unbundle bit_operations_syntax

section \<open>Utilities (utils.js)\<close>

subsection \<open>JavaScript number operators used by uuidv7\<close>

text \<open>
  The bitwise operators of JavaScript work on 32-bit integers: both operands go through
  ToInt32 (the value modulo \<open>2^32\<close>, read as two's complement), the shift count of
  \<open>>>\<close> is taken modulo 32 and the shift is arithmetic.  A store into a
  \<open>Uint8Array\<close> keeps the value modulo 256.
\<close>

type_synonym byte = "8 word"

definition ToInt32 :: "int \<Rightarrow> 32 word" where
  "ToInt32 x = word_of_int x"

definition js_shr :: "int \<Rightarrow> nat \<Rightarrow> 32 word" where
  "js_shr x n = signed_drop_bit (n mod 32) (ToInt32 x)"

definition js_and :: "32 word \<Rightarrow> int \<Rightarrow> 32 word" where
  "js_and a m = a AND ToInt32 m"

definition store_u8 :: "32 word \<Rightarrow> byte" where
  "store_u8 v = ucast v"

subsection \<open>uuidv7\<close>

text \<open>
  \<open>uuidv7_bytes t rnd\<close> is the content of \<open>bytes\<close> just before formatting, for
  \<open>Date.now() = t\<close> and \<open>crypto.getRandomValues\<close> having put \<open>rnd i\<close> at index
  \<open>i\<close> of the 16-byte array.
\<close>

definition uuidv7_bytes :: "int \<Rightarrow> (nat \<Rightarrow> byte) \<Rightarrow> byte list" where
  "uuidv7_bytes timestamp rnd =
    (let bytes = map rnd [0..<16];
         bytes = bytes[0 := store_u8 (js_and (js_shr timestamp 40) 0xff)];
         bytes = bytes[1 := store_u8 (js_and (js_shr timestamp 32) 0xff)];
         bytes = bytes[2 := store_u8 (js_and (js_shr timestamp 24) 0xff)];
         bytes = bytes[3 := store_u8 (js_and (js_shr timestamp 16) 0xff)];
         bytes = bytes[4 := store_u8 (js_and (js_shr timestamp 8) 0xff)];
         bytes = bytes[5 := store_u8 (js_and (ToInt32 timestamp) 0xff)];
         bytes = bytes[6 := (bytes ! 6 AND 0x0f) OR 0x70];
         bytes = bytes[8 := (bytes ! 8 AND 0x3f) OR 0x80]
     in bytes)"

definition hex_digit :: "nat \<Rightarrow> char" where
  "hex_digit n = ''0123456789abcdef'' ! n"

definition hex2 :: "byte \<Rightarrow> string" where
  "hex2 b = [hex_digit (unat b div 16), hex_digit (unat b mod 16)]"

definition uuidv7 :: "int \<Rightarrow> (nat \<Rightarrow> byte) \<Rightarrow> string" where
  "uuidv7 timestamp rnd =
    (let hex = concat (map hex2 (uuidv7_bytes timestamp rnd))
     in take 8 hex @ ''-'' @ take 4 (drop 8 hex) @ ''-'' @ take 4 (drop 12 hex) @ ''-''
        @ take 4 (drop 16 hex) @ ''-'' @ drop 20 hex)"

text \<open>
  The layout the comments of \<open>uuidv7\<close> announce: the 48-bit timestamp, most significant
  byte first.
\<close>

definition be48 :: "int \<Rightarrow> byte list" where
  "be48 t = map (\<lambda>i. word_of_int (t div 2 ^ (8 * (5 - i)))) [0..<6]"


section \<open>Data model of the chat transport (chat.js, socket.js)\<close>

text \<open>
  A message is a JavaScript object; every property the sources ever write is a field, and
  \<open>None\<close> stands for an absent (or \<open>undefined\<close>) property.  A timestamp made by
  \<open>new Date().toISOString()\<close> is kept as the instant it renders; one that comes from
  the backend is kept as the string received.
\<close>

datatype timestamp = Instant nat | Given string

record message =
  m_id :: "string option"
  m_text :: "string option"
  m_html :: "string option"
  m_role :: "string option"
  m_timestamp :: "timestamp option"
  m_loading :: "bool option"
  m_done :: "bool option"
  m_errorText :: "string option"
  m_sources :: "string option"
  m_video :: "string option"
  m_channel :: "string option"

definition empty_object :: message where
  "empty_object = \<lparr>m_id = None, m_text = None, m_html = None, m_role = None,
     m_timestamp = None, m_loading = None, m_done = None, m_errorText = None,
     m_sources = None, m_video = None, m_channel = None\<rparr>"

text \<open>\<open>MESSAGE_ROLES\<close> of constants.js.\<close>

definition BOT :: string where "BOT = ''assistant''"
definition USER :: string where "USER = ''user''"
definition AGENT :: string where "AGENT = ''agent''"
definition SYSTEM :: string where "SYSTEM = ''system''"

text \<open>Truthiness of an optional string and of an optional boolean; \<open>a || b\<close> on strings.\<close>

definition truthy_str :: "string option \<Rightarrow> bool" where
  "truthy_str x = (case x of None \<Rightarrow> False | Some s \<Rightarrow> s \<noteq> [])"

definition truthy_bool :: "bool option \<Rightarrow> bool" where
  "truthy_bool x = (case x of None \<Rightarrow> False | Some b \<Rightarrow> b)"

definition or_else :: "string option \<Rightarrow> string \<Rightarrow> string" where
  "or_else x d = (case x of None \<Rightarrow> d | Some s \<Rightarrow> if s = [] then d else s)"

datatype transport = SSE | SOCKET

record credentials =
  endpoint :: "string option"
  token :: "string option"
  externalId :: "string option"

text \<open>
  The callbacks object: each slot holds the identity of the function the caller
  registered, if any.  Calling a slot appends the call to the world's notification log.
\<close>

record chat_callbacks =
  onMessageAdd :: "nat option"
  onMessageUpdate :: "nat option"
  onSessionUpdate :: "nat option"
  onTransportUpdate :: "nat option"
  onTyping :: "nat option"

datatype notification =
    MessageAdd message
  | MessageUpdate int message
  | SessionUpdate string
  | TransportUpdate transport
  | Typing bool

record chat_session =
  credentials :: "credentials option"
  authenticated :: bool
  configData :: "string option"
  sessionId :: "string option"
  requestId :: "string option"
  sseUrl :: "string option"
  abortController :: "nat option"
  lastStreamId :: "string option"
  messages :: "message list"
  callbacks :: chat_callbacks
  transport :: transport

record socket_session =
  socket :: "nat option"
  previouslyConnected :: bool
  socketDisconnected :: bool
  pingInterval :: "nat option"
  socketDisconnectedTimeout :: "nat option"
  socketConnectionTimeout :: "nat option"

text \<open>Frames of the chat socket protocol, parsed.\<close>

record frame =
  f_type :: string
  f_eventId :: "string option"
  f_data :: "message option"
  f_error :: "string option"

datatype ready_state = CONNECTING | OPEN | CLOSING | CLOSED

datatype 'a promise = Pending | Resolved 'a | Rejected string

text \<open>
  A listener added by \<open>sendWithAck\<close>: the event id it waits for, the promise it
  settles and the timer it clears.
\<close>

record ack_listener =
  l_eventId :: string
  l_promise :: nat
  l_timeout :: nat

record websocket =
  readyState :: ready_state
  sent :: "frame list"
  listeners :: "ack_listener list"
  ws_promise :: nat

datatype timer_action =
    PingTick
  | PingTimeout
  | ConnectTimeout nat
  | AutoReject nat

record timer =
  due :: nat
  period :: "nat option"
  action :: timer_action

text \<open>
  One call of \<open>sendMessage\<close>: its arguments, the promise it returned and where its
  asynchronous body stands.  \<open>Streaming c\<close>: inside \<open>fetchEventSource\<close> with the
  signal of abort controller \<open>c\<close>.
\<close>

datatype phase = Sleeping | Streaming nat | Finished

record request =
  r_text :: string
  r_html :: "string option"
  r_promise :: "string option promise"
  r_phase :: phase

text \<open>
  Events of the streaming endpoint as \<open>onmessage\<close> sees them: the event name and the
  result of \<open>JSON.parse(response.data)\<close> (\<open>Inl\<close>: the message of the exception it
  throws).
\<close>

record sse_data =
  d_sessionId :: "string option"
  d_requestId :: "string option"
  d_message :: "string option"
  d_streamId :: "string option"
  d_done :: "bool option"
  d_sources :: "string option"
  d_session_id :: "string option"
  d_error :: "string option"

record sse_event =
  e_event :: string
  e_data :: "string + sse_data"

text \<open>
  The world: the two module-level sessions and the objects they refer to.  Abort
  controllers are entries of \<open>controllers\<close> (the flag: aborted), WebSockets entries of
  \<open>websockets\<close>; \<open>clock\<close> is \<open>Date.now()\<close>, and the \<open>k\<close>-th call of
  \<open>crypto.getRandomValues\<close> yields \<open>entropy k\<close>.
\<close>

record world =
  chat :: chat_session
  sock :: socket_session
  controllers :: "bool list"
  requests :: "request list"
  websockets :: "websocket list"
  connects :: "bool promise list"
  acks :: "message promise list"
  timers :: "(nat \<times> timer) list"
  next_timer :: nat
  clock :: nat
  entropy :: "nat \<Rightarrow> nat \<Rightarrow> byte"
  draws :: nat
  notifications :: "(nat \<times> notification) list"

definition PING_INTERVAL :: nat where "PING_INTERVAL = 10000"
definition SOCKET_TIMEOUT :: nat where "SOCKET_TIMEOUT = 5000"


section \<open>Platform objects: callbacks, timers, promises, WebSockets\<close>

definition call_cb :: "nat option \<Rightarrow> notification \<Rightarrow> world \<Rightarrow> world" where
  "call_cb slot n w =
    (case slot of None \<Rightarrow> w
     | Some h \<Rightarrow> w\<lparr>notifications := notifications w @ [(h, n)]\<rparr>)"

definition setTimeout :: "nat \<Rightarrow> timer_action \<Rightarrow> world \<Rightarrow> nat \<times> world" where
  "setTimeout ms act w =
    (next_timer w,
     w\<lparr>timers := timers w @ [(next_timer w, \<lparr>due = clock w + ms, period = None, action = act\<rparr>)],
       next_timer := Suc (next_timer w)\<rparr>)"

definition setInterval :: "nat \<Rightarrow> timer_action \<Rightarrow> world \<Rightarrow> nat \<times> world" where
  "setInterval ms act w =
    (next_timer w,
     w\<lparr>timers := timers w @ [(next_timer w, \<lparr>due = clock w + ms, period = Some ms, action = act\<rparr>)],
       next_timer := Suc (next_timer w)\<rparr>)"

text \<open>\<open>clearTimeout\<close> and \<open>clearInterval\<close>; clearing no handle, or a timer that has fired, does nothing.\<close>

definition clearTimeout :: "nat option \<Rightarrow> world \<Rightarrow> world" where
  "clearTimeout h w =
    (case h of None \<Rightarrow> w
     | Some i \<Rightarrow> w\<lparr>timers := filter (\<lambda>e. fst e \<noteq> i) (timers w)\<rparr>)"

text \<open>A promise is settled once: later calls of its resolve and reject functions are ignored.\<close>

definition settle :: "'a promise \<Rightarrow> 'a promise \<Rightarrow> 'a promise" where
  "settle p v = (case p of Pending \<Rightarrow> v | Resolved x \<Rightarrow> p | Rejected e \<Rightarrow> p)"

definition map_at :: "nat \<Rightarrow> ('a \<Rightarrow> 'a) \<Rightarrow> 'a list \<Rightarrow> 'a list" where
  "map_at i f xs = (if i < length xs then xs[i := f (xs ! i)] else xs)"

definition settle_request :: "nat \<Rightarrow> string option promise \<Rightarrow> world \<Rightarrow> world" where
  "settle_request r v w =
    w\<lparr>requests := map_at r (\<lambda>q. q\<lparr>r_promise := settle (r_promise q) v\<rparr>) (requests w)\<rparr>"

definition set_phase :: "nat \<Rightarrow> phase \<Rightarrow> world \<Rightarrow> world" where
  "set_phase r ph w = w\<lparr>requests := map_at r (\<lambda>q. q\<lparr>r_phase := ph\<rparr>) (requests w)\<rparr>"

definition settle_connect :: "nat \<Rightarrow> bool promise \<Rightarrow> world \<Rightarrow> world" where
  "settle_connect p v w = w\<lparr>connects := map_at p (\<lambda>q. settle q v) (connects w)\<rparr>"

definition settle_ack :: "nat \<Rightarrow> message promise \<Rightarrow> world \<Rightarrow> world" where
  "settle_ack a v w = w\<lparr>acks := map_at a (\<lambda>q. settle q v) (acks w)\<rparr>"

definition set_readyState :: "nat \<Rightarrow> ready_state \<Rightarrow> world \<Rightarrow> world" where
  "set_readyState k st w =
    w\<lparr>websockets := map_at k (\<lambda>s. s\<lparr>readyState := st\<rparr>) (websockets w)\<rparr>"

text \<open>
  \<open>WebSocket.send\<close> on object \<open>k\<close>: it throws while the socket is connecting (the
  flag of the result), queues the frame when open and discards it afterwards.
\<close>

definition ws_send :: "nat \<Rightarrow> frame \<Rightarrow> world \<Rightarrow> bool \<times> world" where
  "ws_send k f w =
    (case readyState (websockets w ! k) of
       CONNECTING \<Rightarrow> (True, w)
     | OPEN \<Rightarrow> (False, w\<lparr>websockets := map_at k (\<lambda>s. s\<lparr>sent := sent s @ [f]\<rparr>) (websockets w)\<rparr>)
     | CLOSING \<Rightarrow> (False, w)
     | CLOSED \<Rightarrow> (False, w))"

text \<open>\<open>WebSocket.close\<close> on object \<open>k\<close>.\<close>

definition ws_close :: "nat \<Rightarrow> world \<Rightarrow> world" where
  "ws_close k w =
    (case readyState (websockets w ! k) of
       CONNECTING \<Rightarrow> set_readyState k CLOSING w
     | OPEN \<Rightarrow> set_readyState k CLOSING w
     | CLOSING \<Rightarrow> w
     | CLOSED \<Rightarrow> w)"

definition fresh_uuid :: "world \<Rightarrow> string \<times> world" where
  "fresh_uuid w = (uuidv7 (int (clock w)) (entropy w (draws w)), w\<lparr>draws := Suc (draws w)\<rparr>)"

section \<open>chat.js: session state\<close>

definition createSession :: "chat_callbacks \<Rightarrow> chat_session" where
  "createSession cbs =
    \<lparr>credentials = None, authenticated = False, configData = None, sessionId = None,
     requestId = None, sseUrl = None, abortController = None, lastStreamId = None,
     messages = [], callbacks = cbs, transport = SSE\<rparr>"

definition addMessage :: "message \<Rightarrow> world \<Rightarrow> world" where
  "addMessage m w =
    call_cb (onMessageAdd (callbacks (chat w))) (MessageAdd m)
      (w\<lparr>chat := (chat w)\<lparr>messages := messages (chat w) @ [m]\<rparr>\<rparr>)"

definition toggleTypingStatus :: "bool \<Rightarrow> world \<Rightarrow> world" where
  "toggleTypingStatus isTyping w = call_cb (onTyping (callbacks (chat w))) (Typing isTyping) w"

definition setTransport :: "transport \<Rightarrow> world \<Rightarrow> world" where
  "setTransport t w =
    call_cb (onTransportUpdate (callbacks (chat w))) (TransportUpdate t)
      (w\<lparr>chat := (chat w)\<lparr>transport := t\<rparr>\<rparr>)"

section \<open>socket.js\<close>

definition createSocketSession :: socket_session where
  "createSocketSession =
    \<lparr>socket = None, previouslyConnected = False, socketDisconnected = False,
     pingInterval = None, socketDisconnectedTimeout = None, socketConnectionTimeout = None\<rparr>"

definition stopPingInterval :: "world \<Rightarrow> world" where
  "stopPingInterval w =
    (case pingInterval (sock w) of None \<Rightarrow> w
     | Some i \<Rightarrow> (let w1 = clearTimeout (Some i) w in w1\<lparr>sock := (sock w1)\<lparr>pingInterval := None\<rparr>\<rparr>))"

definition send :: "frame \<Rightarrow> world \<Rightarrow> bool \<times> world" where
  "send data w =
    (case socket (sock w) of None \<Rightarrow> (False, w)
     | Some k \<Rightarrow>
        if socketDisconnected (sock w) then (False, w)
        else if truthy_str (f_eventId data) then ws_send k data w
        else (let (u, w1) = fresh_uuid w in ws_send k (data\<lparr>f_eventId := Some u\<rparr>) w1))"

definition ping :: frame where
  "ping = \<lparr>f_type = ''ping'', f_eventId = None, f_data = None, f_error = None\<rparr>"

definition socket_open :: "world \<Rightarrow> bool" where
  "socket_open w =
    (case socket (sock w) of None \<Rightarrow> False | Some k \<Rightarrow> readyState (websockets w ! k) = OPEN)"

definition startPingInterval :: "world \<Rightarrow> world" where
  "startPingInterval w =
    (let w1 = stopPingInterval w;
         (i, w2) = setInterval PING_INTERVAL PingTick w1
     in w2\<lparr>sock := (sock w2)\<lparr>pingInterval := Some i\<rparr>\<rparr>)"

definition clearAllTimeouts :: "world \<Rightarrow> world" where
  "clearAllTimeouts w =
    (let w1 = stopPingInterval w;
         w2 = (case socketDisconnectedTimeout (sock w1) of None \<Rightarrow> w1
               | Some i \<Rightarrow> (let v = clearTimeout (Some i) w1
                            in v\<lparr>sock := (sock v)\<lparr>socketDisconnectedTimeout := None\<rparr>\<rparr>))
     in (case socketConnectionTimeout (sock w2) of None \<Rightarrow> w2
         | Some i \<Rightarrow> (let v = clearTimeout (Some i) w2
                      in v\<lparr>sock := (sock v)\<lparr>socketConnectionTimeout := None\<rparr>\<rparr>)))"

definition handleSocketConnected :: "world \<Rightarrow> world" where
  "handleSocketConnected w =
    setTransport SOCKET (w\<lparr>sock := (sock w)\<lparr>socketDisconnected := False\<rparr>\<rparr>)"

definition handleSocketDisconnected :: "world \<Rightarrow> world" where
  "handleSocketDisconnected w =
    setTransport SSE (w\<lparr>sock := (sock w)\<lparr>socketDisconnected := True\<rparr>\<rparr>)"

definition connection_error_message :: "world \<Rightarrow> message" where
  "connection_error_message w =
    empty_object\<lparr>m_errorText := Some ''Unable to establish connection'', m_done := Some True,
      m_timestamp := Some (Instant (clock w))\<rparr>"

text \<open>
  \<open>connectSocket\<close>.  \<open>valid_url\<close> tells whether \<open>new URL\<close> accepts a string (the
  platform's parser); the query string of the socket URL is not part of the model.  The
  handlers the function installs on the new socket are \<open>ws_onopen\<close>, \<open>ws_onmessage\<close>,
  \<open>ws_onerror\<close> and \<open>ws_onclose\<close> below.
\<close>

definition connectSocket :: "(string \<Rightarrow> bool) \<Rightarrow> world \<Rightarrow> world" where
  "connectSocket valid_url w =
    (let busy = (case socket (sock w) of None \<Rightarrow> None
                 | Some k \<Rightarrow>
                    if readyState (websockets w ! k) = CONNECTING \<or> readyState (websockets w ! k) = OPEN
                    then Some (readyState (websockets w ! k) = OPEN) else None);
         not_initialized = w\<lparr>connects := connects w @ [Rejected ''SDK not initialized. Please initialize SDK first.'']\<rparr>
     in case busy of
          Some is_open \<Rightarrow> w\<lparr>connects := connects w @ [Resolved is_open]\<rparr>
        | None \<Rightarrow>
           (case credentials (chat w) of None \<Rightarrow> not_initialized
            | Some c \<Rightarrow>
               (case endpoint c of None \<Rightarrow> not_initialized
                | Some e \<Rightarrow>
                   if e = [] then not_initialized
                   else if \<not> valid_url e
                   then w\<lparr>connects := connects w @ [Rejected ''Invalid endpoint while initializing SDK. Please check the endpoint and try again.'']\<rparr>
                   else
                    (let p = length (connects w);
                         k = length (websockets w);
                         w1 = w\<lparr>websockets := websockets w @ [\<lparr>readyState = CONNECTING, sent = [], listeners = [], ws_promise = p\<rparr>],
                                connects := connects w @ [Pending],
                                sock := (sock w)\<lparr>socket := Some k\<rparr>\<rparr>
                     in if previouslyConnected (sock w1) then w1
                        else (let (i, w2) = setTimeout SOCKET_TIMEOUT (ConnectTimeout p) w1
                              in w2\<lparr>sock := (sock w2)\<lparr>socketConnectionTimeout := Some i\<rparr>\<rparr>)))))"

definition ws_onopen :: "nat \<Rightarrow> world \<Rightarrow> world" where
  "ws_onopen k w =
    (let w1 = set_readyState k OPEN w;
         w2 = w1\<lparr>sock := (sock w1)\<lparr>previouslyConnected := True\<rparr>\<rparr>;
         w3 = handleSocketConnected w2;
         (threw, w4) = send ping w3
     in if threw then w4
        else (let w5 = clearTimeout (socketConnectionTimeout (sock w4)) w4;
                  w6 = startPingInterval w5
              in settle_connect (ws_promise (websockets w6 ! k)) (Resolved True) w6))"

definition ws_onerror :: "nat \<Rightarrow> world \<Rightarrow> world" where
  "ws_onerror k w =
    (let w1 = setTransport SSE w
     in settle_connect (ws_promise (websockets w1 ! k)) (Rejected []) w1)"

definition ws_onclose :: "nat \<Rightarrow> nat \<Rightarrow> world \<Rightarrow> world" where
  "ws_onclose k code w =
    (let w1 = set_readyState k CLOSED w
     in if socket (sock w1) = Some k
        then (let w2 = (if code = 1006
                        then (let v = (if previouslyConnected (sock w1)
                                       then handleSocketDisconnected w1
                                       else addMessage (connection_error_message w1) w1)
                              in clearTimeout (socketConnectionTimeout (sock v)) v)
                        else w1);
                  w3 = w2\<lparr>sock := (sock w2)\<lparr>socket := None\<rparr>\<rparr>
              in clearAllTimeouts w3)
        else w1)"

text \<open>\<open>disconnect\<close> of socket.js (imported by chat.js as \<open>disconnectSocket\<close>).\<close>

definition disconnectSocket :: "world \<Rightarrow> world" where
  "disconnectSocket w =
    (let w1 = (case socket (sock w) of None \<Rightarrow> w | Some k \<Rightarrow> ws_close k w);
         w2 = w1\<lparr>sock := (sock w1)\<lparr>previouslyConnected := False\<rparr>\<rparr>;
         w3 = clearAllTimeouts w2;
         w4 = w3\<lparr>sock := (sock w3)\<lparr>socket := None\<rparr>\<rparr>
     in setTransport SSE w4)"

definition isConnected :: "world \<Rightarrow> bool" where
  "isConnected w =
    (case socket (sock w) of None \<Rightarrow> False
     | Some k \<Rightarrow> readyState (websockets w ! k) = OPEN \<and> \<not> socketDisconnected (sock w))"

definition handleSocketEvent :: "frame \<Rightarrow> world \<Rightarrow> world" where
  "handleSocketEvent event w =
    (if f_type event = ''pong'' then
       (let w1 = (if socketDisconnected (sock w) then handleSocketConnected w else w);
            w2 = clearTimeout (socketDisconnectedTimeout (sock w1)) w1;
            (i, w3) = setTimeout (PING_INTERVAL + 1000) PingTimeout w2
        in w3\<lparr>sock := (sock w3)\<lparr>socketDisconnectedTimeout := Some i\<rparr>\<rparr>)
     else if f_type event = ''typing'' then toggleTypingStatus True w
     else if f_type event = ''typingOff'' then toggleTypingStatus False w
     else if f_type event = ''message'' then
       (if truthy_str (f_eventId event) then w
        else addMessage
               ((case f_data event of None \<Rightarrow> empty_object | Some d \<Rightarrow> d)
                  \<lparr>m_done := Some True, m_timestamp := Some (Instant (clock w))\<rparr>) w)
     else if f_type event = ''end'' then disconnectSocket w
     else w)"

text \<open>
  \<open>sendWithAck\<close>: the promise is entry \<open>length (acks w)\<close> of \<open>acks\<close>.  An exception
  of \<open>socket.send\<close> inside the executor rejects the promise.
\<close>

definition sendWithAck :: "frame \<Rightarrow> world \<Rightarrow> world" where
  "sendWithAck data w =
    (case socket (sock w) of
       None \<Rightarrow> w\<lparr>acks := acks w @ [Rejected ''Socket instance not found or not connected'']\<rparr>
     | Some k \<Rightarrow>
        (let a = length (acks w);
             w1 = w\<lparr>acks := acks w @ [Pending]\<rparr>;
             (autoRejectTimeout, w2) = setTimeout 5000 (AutoReject a) w1;
             (eventId, w3) = (case f_eventId data of None \<Rightarrow> fresh_uuid w2
                              | Some e \<Rightarrow> if e = [] then fresh_uuid w2 else (e, w2));
             onMessage = \<lparr>l_eventId = eventId, l_promise = a, l_timeout = autoRejectTimeout\<rparr>;
             w4 = w3\<lparr>websockets := map_at k (\<lambda>s. s\<lparr>listeners := listeners s @ [onMessage]\<rparr>) (websockets w3)\<rparr>;
             (threw, w5) = ws_send k (data\<lparr>f_eventId := Some eventId\<rparr>) w4
         in if threw then settle_ack a (Rejected ''InvalidStateError'') w5 else w5))"

text \<open>The listener \<open>onMessage\<close> of \<open>sendWithAck\<close>, run on an inbound frame.\<close>

definition onMessage :: "ack_listener \<Rightarrow> frame \<Rightarrow> world \<Rightarrow> world" where
  "onMessage l eventData w =
    (if f_eventId eventData = Some (l_eventId l) then
       (let w1 = clearTimeout (Some (l_timeout l)) w
        in case socket (sock w1) of
             None \<Rightarrow> w1
           | Some k \<Rightarrow>
              (let w2 = w1\<lparr>websockets := map_at k (\<lambda>s. s\<lparr>listeners := filter (\<lambda>x. x \<noteq> l) (listeners s)\<rparr>) (websockets w1)\<rparr>
               in case f_data eventData of
                    Some d \<Rightarrow> settle_ack (l_promise l) (Resolved d) w2
                  | None \<Rightarrow> settle_ack (l_promise l)
                              (Rejected (case f_error eventData of None \<Rightarrow> ''Unknown error'' | Some e \<Rightarrow> e)) w2))
     else w)"

text \<open>
  A message event on socket \<open>k\<close>: the \<open>onmessage\<close> handler first, then the listeners
  that were registered on \<open>k\<close> when the event was dispatched.
\<close>

definition ws_onmessage :: "nat \<Rightarrow> frame \<Rightarrow> world \<Rightarrow> world" where
  "ws_onmessage k message w =
    foldl (\<lambda>v l. onMessage l message v) (handleSocketEvent message w) (listeners (websockets w ! k))"

subsection \<open>Timers firing\<close>

definition run_action :: "timer_action \<Rightarrow> world \<Rightarrow> world" where
  "run_action act w =
    (case act of
       PingTick \<Rightarrow> if socket_open w then snd (send ping w) else stopPingInterval w
     | PingTimeout \<Rightarrow> handleSocketDisconnected w
     | ConnectTimeout p \<Rightarrow>
         settle_connect p (Rejected ''Socket connection timed out'')
           (addMessage (connection_error_message w) w)
     | AutoReject a \<Rightarrow> settle_ack a (Rejected ''Timeout'') w)"

definition fire_timer :: "nat \<Rightarrow> world \<Rightarrow> world" where
  "fire_timer i w =
    (case map_of (timers w) i of None \<Rightarrow> w
     | Some t \<Rightarrow>
        if clock w < due t then w
        else run_action (action t)
               (case period t of
                  None \<Rightarrow> clearTimeout (Some i) w
                | Some d \<Rightarrow> w\<lparr>timers := map (\<lambda>e. if fst e = i then (i, (snd e)\<lparr>due := due (snd e) + d\<rparr>) else e) (timers w)\<rparr>))"

text \<open>One millisecond passes: the timers that are due fire in the order they were set.\<close>

definition tick :: "world \<Rightarrow> world" where
  "tick w =
    (let w1 = w\<lparr>clock := Suc (clock w)\<rparr>
     in foldl (\<lambda>v i. fire_timer i v) w1
          (map fst (filter (\<lambda>e. due (snd e) \<le> clock w1) (timers w1))))"

primrec advance :: "nat \<Rightarrow> world \<Rightarrow> world" where
  "advance 0 w = w"
| "advance (Suc n) w = advance n (tick w)"


section \<open>chat.js: cleanup and sendMessage\<close>

text \<open>\<open>cleanup\<close> of chat.js; \<open>disconnect\<close> only calls it.\<close>

definition cleanup :: "world \<Rightarrow> world" where
  "cleanup w =
    (let w1 = (case abortController (chat w) of None \<Rightarrow> w
               | Some c \<Rightarrow> w\<lparr>controllers := (controllers w)[c := True]\<rparr>);
         w2 = disconnectSocket w1
     in w2\<lparr>chat := (createSession (callbacks (chat w2)))\<lparr>credentials := credentials (chat w2)\<rparr>\<rparr>)"

definition disconnect :: "world \<Rightarrow> world" where
  "disconnect w = cleanup w"

text \<open>\<open>initialize\<close>.\<close>

definition initialize :: "credentials \<Rightarrow> world \<Rightarrow> world" where
  "initialize creds w =
    (let w1 = w\<lparr>chat := (chat w)\<lparr>credentials := Some creds\<rparr>\<rparr>
     in if truthy_str (token creds) then w1\<lparr>chat := (chat w1)\<lparr>authenticated := True\<rparr>\<rparr> else w1)"

text \<open>\<open>getExternalId\<close>; \<open>deviceId\<close> is what \<open>getDeviceId()\<close> returns.\<close>

definition getExternalId :: "string \<Rightarrow> world \<Rightarrow> string" where
  "getExternalId deviceId w =
    (case credentials (chat w) of None \<Rightarrow> deviceId
     | Some c \<Rightarrow> if truthy_str (externalId c) then or_else (externalId c) deviceId else deviceId)"

text \<open>
  \<open>startChat\<close>, given the answers of the two requests it may await: \<open>auth\<close> from
  \<open>authenticate\<close> and \<open>history\<close> from \<open>getMessages\<close> (\<open>Inl\<close>: the request
  throws).  \<open>encode\<close> is the percent-encoding of \<open>URLSearchParams\<close>.  Any exception
  ends in \<open>cleanup\<close>.
\<close>

record history_message =
  h_id :: "string option"
  h_text :: "string option"
  h_role :: "string option"
  h_timestamp :: "string option"
  h_youtubeVideo :: "string option"
  h_channel :: "string option"

definition history_entry :: "history_message \<Rightarrow> message" where
  "history_entry msg =
    empty_object\<lparr>m_id := h_id msg, m_text := h_text msg,
      m_role := (if truthy_str (h_youtubeVideo msg) then Some BOT else h_role msg),
      m_timestamp := map_option Given (h_timestamp msg),
      m_video := h_youtubeVideo msg, m_channel := h_channel msg, m_done := Some True\<rparr>"

definition startChat ::
  "(string \<Rightarrow> string) \<Rightarrow> string \<Rightarrow> string option \<Rightarrow> string + string option
    \<Rightarrow> string + history_message list \<Rightarrow> world \<Rightarrow> world" where
  "startChat encode deviceId payload_sessionId auth history w =
    (case credentials (chat w) of
       None \<Rightarrow> cleanup w
     | Some creds \<Rightarrow>
        (case (if authenticated (chat w) then Inr w
               else (case auth of Inl err \<Rightarrow> Inl err
                     | Inr cfg \<Rightarrow> Inr (w\<lparr>chat := (chat w)\<lparr>authenticated := True, configData := cfg\<rparr>\<rparr>))) of
           Inl err \<Rightarrow> cleanup w
         | Inr w1 \<Rightarrow>
            (case (if truthy_str payload_sessionId
                   then (case history of Inl err \<Rightarrow> Inl err | Inr hs \<Rightarrow> Inr (map history_entry hs))
                   else Inr []) of
               Inl err \<Rightarrow> cleanup w1
             | Inr msgs \<Rightarrow>
                w1\<lparr>chat := (chat w1)\<lparr>
                      sseUrl := Some ((case endpoint creds of None \<Rightarrow> ''undefined'' | Some e \<Rightarrow> e)
                                      @ ''?externalId='' @ encode (getExternalId deviceId w1)),
                      sessionId := payload_sessionId,
                      messages := msgs\<rparr>\<rparr>)))"

definition errorMessage :: string where
  "errorMessage = ''Failed to connect to the system''"

definition loadingMessage :: message where
  "loadingMessage = empty_object\<lparr>m_role := Some BOT, m_text := Some [], m_loading := Some True\<rparr>"

text \<open>
  The \<open>catch\<close> block of \<open>sendMessage\<close>, entered with an error whose message is
  \<open>err\<close>.  With no message in the list \<open>lastMsg\<close> is \<open>undefined\<close> and reading
  \<open>lastMsg.done\<close> throws inside the block: the list and the promise stay as they are.
\<close>

definition catch_block :: "string \<Rightarrow> nat \<Rightarrow> world \<Rightarrow> world" where
  "catch_block err r w =
    (case messages (chat w) of
       [] \<Rightarrow> set_phase r Finished w
     | m # ms \<Rightarrow>
        (let lastIndex = length (m # ms) - 1;
             lastMsg = (m # ms) ! lastIndex;
             updatedMsg = lastMsg\<lparr>m_loading := Some False,
                            m_errorText := (if truthy_bool (m_done lastMsg) then None
                                            else Some (or_else (Some err) errorMessage)),
                            m_done := Some True\<rparr>;
             w1 = w\<lparr>chat := (chat w)\<lparr>messages := (m # ms)[lastIndex := updatedMsg]\<rparr>\<rparr>;
             w2 = call_cb (onMessageUpdate (callbacks (chat w1))) (MessageUpdate (int lastIndex) updatedMsg) w1
         in set_phase r Finished (settle_request r (Rejected err) w2)))"

text \<open>
  \<open>sendMessage\<close> up to \<open>await sleep(200)\<close>.  The call is entry
  \<open>length (requests w)\<close> of \<open>requests\<close>.
\<close>

definition userMessage :: "string \<Rightarrow> string option \<Rightarrow> nat \<Rightarrow> message" where
  "userMessage text html now =
    empty_object\<lparr>m_role := Some USER, m_text := Some text, m_html := html,
      m_timestamp := Some (Instant now)\<rparr>"

definition sendMessage :: "string \<Rightarrow> string option \<Rightarrow> world \<Rightarrow> world" where
  "sendMessage text html w =
    (let w1 = addMessage (userMessage text html (clock w)) w
     in w1\<lparr>requests := requests w1 @ [\<lparr>r_text = text, r_html = html, r_promise = Pending, r_phase = Sleeping\<rparr>]\<rparr>)"

text \<open>
  \<open>sendMessage\<close> from the end of the sleep to the call of \<open>fetchEventSource\<close> (or to
  the \<open>return\<close> of the socket branch).  The URL parameters, headers and body of the
  request are not part of the model.
\<close>

definition sendMessage_resume :: "(string \<Rightarrow> bool) \<Rightarrow> nat \<Rightarrow> world \<Rightarrow> world" where
  "sendMessage_resume valid_url r w =
    (if \<not> r < length (requests w) then w
     else if r_phase (requests w ! r) \<noteq> Sleeping then w
     else if transport (chat w) = SOCKET \<and> isConnected w then
       (let (threw, w1) = send \<lparr>f_type = ''message'', f_eventId = None,
                                 f_data = Some (empty_object\<lparr>m_text := Some (r_text (requests w ! r)),
                                                              m_html := r_html (requests w ! r)\<rparr>),
                                 f_error = None\<rparr> w
        in if threw then catch_block ''InvalidStateError'' r w1
           else set_phase r Finished (settle_request r (Resolved (sessionId (chat w1))) w1))
     else
       (let w1 = addMessage loadingMessage w
        in case sseUrl (chat w1) of
             None \<Rightarrow> catch_block ''Invalid URL'' r w1
           | Some u \<Rightarrow>
              if \<not> valid_url u then catch_block ''Invalid URL'' r w1
              else (let c = length (controllers w1);
                        w2 = w1\<lparr>chat := (chat w1)\<lparr>lastStreamId := None, abortController := Some c\<rparr>,
                               controllers := controllers w1 @ [False]\<rparr>
                    in set_phase r (Streaming c) w2)))"

text \<open>
  The contract of \<open>fetchEventSource\<close> (package @microsoft/fetch-event-source): it calls
  \<open>onopen\<close>, then \<open>onmessage\<close> for each event; an exception of a handler or a
  transport error goes to \<open>onerror\<close>, which rethrows here, so the returned promise
  rejects and the \<open>catch\<close> block runs; when the server ends the stream, or when the
  signal is aborted, the promise resolves and nothing more is delivered.
\<close>

definition in_flight :: "nat \<Rightarrow> world \<Rightarrow> bool" where
  "in_flight r w =
    (if r < length (requests w)
     then (case r_phase (requests w ! r) of
             Sleeping \<Rightarrow> False
           | Streaming c \<Rightarrow> \<not> controllers w ! c
           | Finished \<Rightarrow> False)
     else False)"

definition onopen :: "nat \<Rightarrow> bool \<Rightarrow> world \<Rightarrow> world" where
  "onopen r ok w =
    (if \<not> in_flight r w then w
     else if \<not> ok then catch_block ''Failed to send message'' r w
     else w)"

definition stream_error :: "nat \<Rightarrow> string \<Rightarrow> world \<Rightarrow> world" where
  "stream_error r err w = (if \<not> in_flight r w then w else catch_block err r w)"

definition stream_close :: "nat \<Rightarrow> world \<Rightarrow> world" where
  "stream_close r w = (if \<not> in_flight r w then w else set_phase r Finished w)"

text \<open>
  The branch \<open>data.message !== undefined\<close> of \<open>onmessage\<close>, in its two blocks:
  a changed \<open>streamId\<close> starts a new assistant message; then the last message receives
  the content.
\<close>

definition start_on_new_streamId :: "sse_data \<Rightarrow> world \<Rightarrow> world" where
  "start_on_new_streamId data w =
    (case d_streamId data of None \<Rightarrow> w
     | Some sid \<Rightarrow>
        (case lastStreamId (chat w) of
           None \<Rightarrow> w\<lparr>chat := (chat w)\<lparr>lastStreamId := Some sid\<rparr>\<rparr>
         | Some l \<Rightarrow>
            if sid \<noteq> l
            then addMessage loadingMessage (w\<lparr>chat := (chat w)\<lparr>lastStreamId := Some sid\<rparr>\<rparr>)
            else w))"

definition updatedMsg :: "sse_data \<Rightarrow> string \<Rightarrow> message \<Rightarrow> message" where
  "updatedMsg data msg lastMsg =
    lastMsg\<lparr>m_loading := Some False,
            m_text := Some (or_else (m_text lastMsg) [] @ msg),
            m_sources := d_sources data,
            m_done := (case d_done data of None \<Rightarrow> m_done lastMsg | Some b \<Rightarrow> Some b)\<rparr>"

definition content_event :: "nat \<Rightarrow> sse_data \<Rightarrow> string \<Rightarrow> world \<Rightarrow> world" where
  "content_event r data msg w =
    (let w1 = start_on_new_streamId data w
     in case messages (chat w1) of
          [] \<Rightarrow> catch_block ''Cannot read properties of undefined (reading 'text')'' r w1
        | m # ms \<Rightarrow>
           (let lastIndex = length (m # ms) - 1;
                lastMsg = (m # ms) ! lastIndex;
                w2 = w1\<lparr>chat := (chat w1)\<lparr>messages := (m # ms)[lastIndex := updatedMsg data msg lastMsg]\<rparr>\<rparr>;
                w3 = call_cb (onMessageUpdate (callbacks (chat w2)))
                       (MessageUpdate (int lastIndex) (updatedMsg data msg lastMsg)) w2;
                w4 = (if truthy_bool (d_done data) then settle_request r (Resolved (sessionId (chat w3))) w3 else w3)
            in w4\<lparr>chat := (chat w4)\<lparr>
                   sessionId := (case d_session_id data of None \<Rightarrow> sessionId (chat w4) | Some x \<Rightarrow> Some x),
                   requestId := (case d_requestId data of None \<Rightarrow> requestId (chat w4) | Some x \<Rightarrow> Some x)\<rparr>\<rparr>))"

text \<open>The branch \<open>data.error\<close> of \<open>onmessage\<close>.\<close>

definition error_event :: "nat \<Rightarrow> world \<Rightarrow> world" where
  "error_event r w =
    (let ms = messages (chat w);
         lastIndex = int (length ms) - 1;
         lastMsg = (case ms of [] \<Rightarrow> empty_object | m # rest \<Rightarrow> last ms);
         updatedMsg = lastMsg\<lparr>m_loading := Some False, m_errorText := Some errorMessage\<rparr>;
         w1 = w\<lparr>chat := (chat w)\<lparr>messages := ms[length ms - 1 := updatedMsg]\<rparr>\<rparr>;
         w2 = call_cb (onMessageUpdate (callbacks (chat w1))) (MessageUpdate lastIndex updatedMsg) w1
     in settle_request r (Rejected errorMessage) w2)"

definition onmessage :: "(string \<Rightarrow> bool) \<Rightarrow> nat \<Rightarrow> sse_event \<Rightarrow> world \<Rightarrow> world" where
  "onmessage valid_url r response w =
    (if \<not> in_flight r w then w
     else case e_data response of
            Inl err \<Rightarrow> catch_block err r w
          | Inr data \<Rightarrow>
             if e_event response = ''connected''
             then w\<lparr>chat := (chat w)\<lparr>sessionId := d_sessionId data, requestId := d_requestId data\<rparr>\<rparr>
             else if e_event response = ''upgrade_to_websocket''
             then connectSocket valid_url w
             else (case d_message data of
                     Some msg \<Rightarrow> content_event r data msg w
                   | None \<Rightarrow> if truthy_str (d_error data) then error_event r w else w))"


section \<open>call.js\<close>

record call_callbacks =
  onCallStatus :: "nat option"
  onCallError :: "nat option"

record call_session =
  call_sessionId :: "string option"
  call_socket :: "nat option"
  peerConnection :: "nat option"
  localStream :: "nat option"
  remoteStream :: "nat option"
  remoteAudio :: "nat option"
  isMuted :: bool
  callStatus :: string
  call_pingInterval :: "nat option"
  pingCount :: nat
  lastPongTime :: "nat option"
  call_callbacks :: call_callbacks

text \<open>Frames of the call signaling protocol that the modelled functions send.\<close>

record call_frame =
  cf_type :: string
  cf_sdp :: "string option"
  cf_timestamp :: "nat option"
  cf_count :: "nat option"

record call_websocket =
  cs_readyState :: ready_state
  cs_sent :: "call_frame list"

text \<open>
  What the call controller does to the outside, in the order it does it: calls of the
  registered callbacks and operations on media tracks, peer connections, audio elements,
  sockets and intervals.
\<close>

datatype call_effect =
    StatusCallback nat string
  | ErrorCallback nat "string option"
  | PeerClosed nat
  | TrackStopped nat
  | AudioRemoved nat
  | SocketClosed nat
  | IntervalCleared nat

text \<open>
  Where the asynchronous body of \<open>startCall\<close> stands: idle, or suspended at one of
  its \<open>await\<close>s (\<open>AwaitSocket k\<close>: on the promise of \<open>connectSocket\<close> that the
  handlers of socket \<open>k\<close> settle).
\<close>

datatype call_await =
    Idle
  | AwaitUserMedia
  | AwaitSocket nat
  | AwaitOffer
  | AwaitLocalDescription string

text \<open>
  The inbound signaling events whose handling is modelled (\<open>pong\<close>, \<open>end\<close>,
  \<open>error\<close> and any unknown type); the WebRTC negotiation events \<open>answer\<close>,
  \<open>ice\<close> and \<open>renegotiationOffer\<close> are outside the model.
\<close>

datatype call_action = pong | end_call | error_action "string option" | unknown string

text \<open>
  The world of the call controller: its session, the credentials \<open>getCredentials()\<close>
  of chat.js returns, the tracks of each MediaStream, the signaling sockets, the number of
  peer connections, audio elements and intervals created so far, and the effects.
\<close>

record call_world =
  call :: call_session
  chat_credentials :: "credentials option"
  streams :: "nat list list"
  call_sockets :: "call_websocket list"
  peers :: nat
  audios :: nat
  intervals :: nat
  awaiting :: call_await
  call_clock :: nat
  effects :: "call_effect list"

definition createCallSession :: "call_callbacks \<Rightarrow> call_session" where
  "createCallSession cbs =
    \<lparr>call_sessionId = None, call_socket = None, peerConnection = None, localStream = None,
     remoteStream = None, remoteAudio = None, isMuted = False, callStatus = ''disconnected'',
     call_pingInterval = None, pingCount = 0, lastPongTime = None, call_callbacks = cbs\<rparr>"

text \<open>
  \<open>setCallCallbacks\<close>: the slots the caller passes replace those registered before
  (\<open>None\<close>: the key is absent from the object passed).
\<close>

definition setCallCallbacks :: "call_callbacks \<Rightarrow> call_world \<Rightarrow> call_world" where
  "setCallCallbacks cbs w =
    w\<lparr>call := (call w)\<lparr>call_callbacks :=
      \<lparr>onCallStatus = (case onCallStatus cbs of None \<Rightarrow> onCallStatus (call_callbacks (call w))
                        | Some h \<Rightarrow> Some h),
       onCallError = (case onCallError cbs of None \<Rightarrow> onCallError (call_callbacks (call w))
                       | Some h \<Rightarrow> Some h)\<rparr>\<rparr>\<rparr>"

definition effect :: "call_effect \<Rightarrow> call_world \<Rightarrow> call_world" where
  "effect e w = w\<lparr>effects := effects w @ [e]\<rparr>"

definition setCallStatus :: "string \<Rightarrow> call_world \<Rightarrow> call_world" where
  "setCallStatus status w =
    (let w1 = w\<lparr>call := (call w)\<lparr>callStatus := status\<rparr>\<rparr>
     in case onCallStatus (call_callbacks (call w1)) of None \<Rightarrow> w1
        | Some h \<Rightarrow> effect (StatusCallback h status) w1)"

definition setCallError :: "string option \<Rightarrow> call_world \<Rightarrow> call_world" where
  "setCallError error w =
    (case onCallError (call_callbacks (call w)) of None \<Rightarrow> w
     | Some h \<Rightarrow> effect (ErrorCallback h error) w)"

definition call_stopPingInterval :: "call_world \<Rightarrow> call_world" where
  "call_stopPingInterval w =
    (case call_pingInterval (call w) of None \<Rightarrow> w
     | Some i \<Rightarrow> (let w1 = effect (IntervalCleared i) w
                  in w1\<lparr>call := (call w1)\<lparr>call_pingInterval := None\<rparr>\<rparr>))"

definition call_startPingInterval :: "call_world \<Rightarrow> call_world" where
  "call_startPingInterval w =
    (let w1 = call_stopPingInterval w
     in w1\<lparr>call := (call w1)\<lparr>call_pingInterval := Some (intervals w1)\<rparr>,
          intervals := Suc (intervals w1)\<rparr>)"

definition stop_tracks :: "nat list \<Rightarrow> call_world \<Rightarrow> call_world" where
  "stop_tracks ts w = foldl (\<lambda>v t. effect (TrackStopped t) v) w ts"

definition close_call_socket :: "nat \<Rightarrow> call_world \<Rightarrow> call_world" where
  "close_call_socket k w =
    effect (SocketClosed k)
      (w\<lparr>call_sockets := map_at k
            (\<lambda>s. if cs_readyState s = CONNECTING \<or> cs_readyState s = OPEN
                 then s\<lparr>cs_readyState := CLOSING\<rparr> else s) (call_sockets w)\<rparr>)"

text \<open>\<open>cleanup\<close> of call.js.\<close>

definition call_cleanup :: "call_world \<Rightarrow> call_world" where
  "call_cleanup w =
    (let w1 = (case peerConnection (call w) of None \<Rightarrow> w
               | Some p \<Rightarrow> (let v = effect (PeerClosed p) w
                            in v\<lparr>call := (call v)\<lparr>peerConnection := None\<rparr>\<rparr>));
         w2 = (case localStream (call w1) of None \<Rightarrow> w1
               | Some s \<Rightarrow> (let v = stop_tracks (streams w1 ! s) w1
                            in v\<lparr>call := (call v)\<lparr>localStream := None\<rparr>\<rparr>));
         w3 = (case remoteStream (call w2) of None \<Rightarrow> w2
               | Some s \<Rightarrow> w2\<lparr>call := (call w2)\<lparr>remoteStream := None\<rparr>\<rparr>);
         w4 = (case remoteAudio (call w3) of None \<Rightarrow> w3
               | Some a \<Rightarrow> (let v = effect (AudioRemoved a) w3
                            in v\<lparr>call := (call v)\<lparr>remoteAudio := None\<rparr>\<rparr>));
         w5 = (case call_socket (call w4) of None \<Rightarrow> w4
               | Some k \<Rightarrow> (let v = close_call_socket k w4
                            in v\<lparr>call := (call v)\<lparr>call_socket := None\<rparr>\<rparr>));
         w6 = call_stopPingInterval w5
     in w6\<lparr>call := createCallSession (call_callbacks (call w6))\<rparr>)"

definition sendEvent :: "call_frame \<Rightarrow> call_world \<Rightarrow> call_world" where
  "sendEvent payload w =
    (case call_socket (call w) of None \<Rightarrow> w
     | Some k \<Rightarrow>
        if cs_readyState (call_sockets w ! k) \<noteq> OPEN then w
        else w\<lparr>call_sockets := map_at k (\<lambda>s. s\<lparr>cs_sent := cs_sent s @ [payload]\<rparr>) (call_sockets w)\<rparr>)"

definition frame_of_type :: "string \<Rightarrow> call_frame" where
  "frame_of_type ty = \<lparr>cf_type = ty, cf_sdp = None, cf_timestamp = None, cf_count = None\<rparr>"

text \<open>The callback of the ping interval \<open>i\<close>; a cleared interval does not fire.\<close>

definition call_ping_tick :: "nat \<Rightarrow> call_world \<Rightarrow> call_world" where
  "call_ping_tick i w =
    (if IntervalCleared i \<in> set (effects w) \<or> \<not> i < intervals w then w
     else if (case call_socket (call w) of None \<Rightarrow> False
              | Some k \<Rightarrow> cs_readyState (call_sockets w ! k) = OPEN)
     then (let w1 = w\<lparr>call := (call w)\<lparr>pingCount := Suc (pingCount (call w))\<rparr>\<rparr>
           in sendEvent ((frame_of_type ''ping'')\<lparr>cf_timestamp := Some (call_clock w1),
                           cf_count := Some (pingCount (call w1))\<rparr>) w1)
     else call_stopPingInterval w)"

definition handlePong :: "call_world \<Rightarrow> call_world" where
  "handlePong w = w\<lparr>call := (call w)\<lparr>lastPongTime := Some (call_clock w)\<rparr>\<rparr>"

text \<open>\<open>disconnectCall\<close>.\<close>

definition disconnectCall :: "call_world \<Rightarrow> call_world" where
  "disconnectCall w =
    (let w1 = sendEvent (frame_of_type ''end'') w;
         w2 = (case call_socket (call w1) of None \<Rightarrow> w1
               | Some k \<Rightarrow> (let v = close_call_socket k w1
                            in v\<lparr>call := (call v)\<lparr>call_socket := None\<rparr>\<rparr>));
         w3 = setCallStatus ''disconnected'' w2;
         w4 = (case peerConnection (call w3) of None \<Rightarrow> w3
               | Some p \<Rightarrow> (let v = effect (PeerClosed p) w3
                            in v\<lparr>call := (call v)\<lparr>peerConnection := None\<rparr>\<rparr>));
         w5 = (case localStream (call w4) of None \<Rightarrow> w4
               | Some s \<Rightarrow> (let v = stop_tracks (streams w4 ! s) w4
                            in v\<lparr>call := (call v)\<lparr>localStream := None\<rparr>\<rparr>))
     in call_cleanup w5)"

text \<open>
  The \<open>catch\<close> block of \<open>startCall\<close>, entered with an error whose message is
  \<open>err\<close> (\<open>None\<close>: the thrown value has no message).
\<close>

definition startCall_catch :: "string option \<Rightarrow> call_world \<Rightarrow> call_world" where
  "startCall_catch err w =
    (let w1 = setCallStatus ''error'' (w\<lparr>awaiting := Idle\<rparr>);
         w2 = setCallError (Some (or_else err ''Unable to connect voice'')) w1
     in call_cleanup w2)"

text \<open>\<open>startCall\<close> up to \<open>await getUserMedia()\<close>.\<close>

definition startCall :: "string option \<Rightarrow> call_world \<Rightarrow> call_world" where
  "startCall payload_sessionId w =
    (if callStatus (call w) = ''connecting'' \<or> callStatus (call w) = ''connected'' then w
     else (let w1 = setCallStatus ''connecting'' w;
               w2 = setCallError None w1
           in w2\<lparr>call := (call w2)\<lparr>call_sessionId := payload_sessionId\<rparr>, awaiting := AwaitUserMedia\<rparr>))"

text \<open>
  The continuation of \<open>startCall\<close> after \<open>await connectSocket(payload)\<close>: it asks the
  peer connection for an offer; with no peer connection left the call throws.
\<close>

definition startCall_createOffer :: "call_world \<Rightarrow> call_world" where
  "startCall_createOffer w =
    (case peerConnection (call w) of
       None \<Rightarrow> startCall_catch (Some ''Cannot read properties of null (reading 'createOffer')'') w
     | Some p \<Rightarrow> w\<lparr>awaiting := AwaitOffer\<rparr>)"

text \<open>
  \<open>connectSocket\<close> of call.js as \<open>startCall\<close> awaits it: a promise that is already
  settled when the function returns continues or fails \<open>startCall\<close> at once; otherwise
  \<open>startCall\<close> waits for the handlers \<open>call_onopen\<close> and \<open>call_onerror\<close>.
\<close>

definition call_connectSocket :: "(string \<Rightarrow> bool) \<Rightarrow> call_world \<Rightarrow> call_world" where
  "call_connectSocket valid_url w =
    (let busy = (case call_socket (call w) of None \<Rightarrow> False
                 | Some k \<Rightarrow> cs_readyState (call_sockets w ! k) = CONNECTING
                            \<or> cs_readyState (call_sockets w ! k) = OPEN);
         not_initialized = startCall_catch (Some ''SDK not initialized. Please initialize SDK first.'') w
     in if busy then startCall_createOffer w
        else (case chat_credentials w of None \<Rightarrow> not_initialized
              | Some c \<Rightarrow>
                 (case endpoint c of None \<Rightarrow> not_initialized
                  | Some e \<Rightarrow>
                     if e = [] then not_initialized
                     else if \<not> valid_url e
                     then startCall_catch (Some ''Invalid endpoint while initializing SDK. Please check the endpoint and try again.'') w
                     else w\<lparr>call_sockets := call_sockets w @ [\<lparr>cs_readyState = CONNECTING, cs_sent = []\<rparr>],
                            call := (call w)\<lparr>call_socket := Some (length (call_sockets w))\<rparr>,
                            awaiting := AwaitSocket (length (call_sockets w))\<rparr>)))"

text \<open>
  \<open>getUserMedia\<close> has answered: with an error, or with a stream of the given tracks.
  \<open>startCall\<close> goes on to \<open>createPeerConnection\<close>, \<open>addTrack\<close> and
  \<open>connectSocket\<close>.
\<close>

definition startCall_userMedia :: "(string \<Rightarrow> bool) \<Rightarrow> string option + nat list \<Rightarrow> call_world \<Rightarrow> call_world" where
  "startCall_userMedia valid_url res w =
    (if awaiting w \<noteq> AwaitUserMedia then w
     else case res of
            Inl err \<Rightarrow> startCall_catch err w
          | Inr ts \<Rightarrow>
             (let w1 = w\<lparr>streams := streams w @ [ts],
                         call := (call w)\<lparr>localStream := Some (length (streams w))\<rparr>\<rparr>;
                  w2 = w1\<lparr>peers := Suc (peers w1),
                          call := (call w1)\<lparr>peerConnection := Some (peers w1)\<rparr>\<rparr>
              in call_connectSocket valid_url w2))"

definition startCall_offer :: "string option + string \<Rightarrow> call_world \<Rightarrow> call_world" where
  "startCall_offer res w =
    (if awaiting w \<noteq> AwaitOffer then w
     else case res of
            Inl err \<Rightarrow> startCall_catch err w
          | Inr sdp \<Rightarrow>
             (case peerConnection (call w) of
                None \<Rightarrow> startCall_catch (Some ''Cannot read properties of null (reading 'setLocalDescription')'') w
              | Some p \<Rightarrow> w\<lparr>awaiting := AwaitLocalDescription sdp\<rparr>))"

definition startCall_localDescription :: "string option option \<Rightarrow> call_world \<Rightarrow> call_world" where
  "startCall_localDescription res w =
    (case awaiting w of
       AwaitLocalDescription sdp \<Rightarrow>
         (case res of
            Some err \<Rightarrow> startCall_catch err w
          | None \<Rightarrow> sendEvent ((frame_of_type ''offer'')\<lparr>cf_sdp := Some sdp\<rparr>) (w\<lparr>awaiting := Idle\<rparr>))
     | Idle \<Rightarrow> w | AwaitUserMedia \<Rightarrow> w | AwaitSocket k \<Rightarrow> w | AwaitOffer \<Rightarrow> w)"

text \<open>The handlers \<open>connectSocket\<close> installs on the signaling socket \<open>k\<close>.\<close>

definition call_onopen :: "nat \<Rightarrow> call_world \<Rightarrow> call_world" where
  "call_onopen k w =
    (let w1 = w\<lparr>call_sockets := map_at k (\<lambda>s. s\<lparr>cs_readyState := OPEN\<rparr>) (call_sockets w)\<rparr>;
         w2 = call_startPingInterval w1
     in if awaiting w2 = AwaitSocket k then startCall_createOffer w2 else w2)"

definition call_onerror :: "nat \<Rightarrow> string option \<Rightarrow> call_world \<Rightarrow> call_world" where
  "call_onerror k err w =
    (let w1 = setCallStatus ''error'' w;
         w2 = setCallError (Some (or_else err ''Unable to connect voice'')) w1
     in if awaiting w2 = AwaitSocket k then startCall_catch err w2 else w2)"

definition call_onclose :: "nat \<Rightarrow> call_world \<Rightarrow> call_world" where
  "call_onclose k w =
    call_stopPingInterval
      (w\<lparr>call_sockets := map_at k (\<lambda>s. s\<lparr>cs_readyState := CLOSED\<rparr>) (call_sockets w)\<rparr>)"

definition handleCallServerEvent :: "call_action \<Rightarrow> call_world \<Rightarrow> call_world" where
  "handleCallServerEvent act w =
    (case act of
       pong \<Rightarrow> handlePong w
     | end_call \<Rightarrow> disconnectCall w
     | error_action e \<Rightarrow> setCallError (Some (or_else e ''Unable to connect voice'')) (setCallStatus ''error'' w)
     | unknown ty \<Rightarrow> w)"

text \<open>\<open>onconnectionstatechange\<close> of the peer connection, with its new state.\<close>

definition onconnectionstatechange :: "string \<Rightarrow> call_world \<Rightarrow> call_world" where
  "onconnectionstatechange newState w =
    (if newState = ''connected'' then setCallStatus ''connected'' w
     else if newState = ''disconnected'' \<or> newState = ''closed''
     then disconnectCall (setCallStatus ''disconnected'' w)
     else w)"

text \<open>\<open>ontrack\<close> of the peer connection: the remote stream and its audio element.\<close>

definition ontrack :: "nat \<Rightarrow> call_world \<Rightarrow> call_world" where
  "ontrack stream w =
    (let w1 = w\<lparr>call := (call w)\<lparr>remoteStream := Some stream\<rparr>\<rparr>
     in case remoteAudio (call w1) of
          Some a \<Rightarrow> w1
        | None \<Rightarrow> w1\<lparr>call := (call w1)\<lparr>remoteAudio := Some (audios w1)\<rparr>, audios := Suc (audios w1)\<rparr>)"


section \<open>Initial state and scripted streams\<close>

text \<open>The state of the three modules when they are loaded.\<close>

definition no_chat_callbacks :: chat_callbacks where
  "no_chat_callbacks = \<lparr>onMessageAdd = None, onMessageUpdate = None, onSessionUpdate = None,
     onTransportUpdate = None, onTyping = None\<rparr>"

definition initial_world :: "nat \<Rightarrow> (nat \<Rightarrow> nat \<Rightarrow> byte) \<Rightarrow> world" where
  "initial_world now rnd =
    \<lparr>chat = createSession no_chat_callbacks, sock = createSocketSession, controllers = [],
     requests = [], websockets = [], connects = [], acks = [], timers = [], next_timer = 0,
     clock = now, entropy = rnd, draws = 0, notifications = []\<rparr>"

definition initial_call_world :: "credentials option \<Rightarrow> call_world" where
  "initial_call_world creds =
    \<lparr>call = createCallSession \<lparr>onCallStatus = None, onCallError = None\<rparr>,
     chat_credentials = creds, streams = [], call_sockets = [], peers = 0, audios = 0,
     intervals = 0, awaiting = Idle, call_clock = 0, effects = []\<rparr>"

text \<open>Events of the streaming endpoint.\<close>

definition no_data :: sse_data where
  "no_data = \<lparr>d_sessionId = None, d_requestId = None, d_message = None, d_streamId = None,
     d_done = None, d_sources = None, d_session_id = None, d_error = None\<rparr>"

definition connected_event :: "string \<Rightarrow> sse_event" where
  "connected_event sid = \<lparr>e_event = ''connected'', e_data = Inr (no_data\<lparr>d_sessionId := Some sid\<rparr>)\<rparr>"

definition data_event :: "sse_data \<Rightarrow> sse_event" where
  "data_event d = \<lparr>e_event = [], e_data = Inr d\<rparr>"

definition fragment :: "string \<Rightarrow> string option \<Rightarrow> bool option \<Rightarrow> sse_data" where
  "fragment msg sid dn = no_data\<lparr>d_message := Some msg, d_streamId := sid, d_done := dn\<rparr>"

text \<open>\<open>fetchEventSource\<close> delivering a list of events to \<open>onmessage\<close>, in order.\<close>

definition deliver :: "(string \<Rightarrow> bool) \<Rightarrow> nat \<Rightarrow> sse_event list \<Rightarrow> world \<Rightarrow> world" where
  "deliver valid_url r evs w = foldl (\<lambda>v e. onmessage valid_url r e v) w evs"

text \<open>The stream boundary id seen last in a list of content events, if any carried one.\<close>

definition last_seen :: "sse_data list \<Rightarrow> string option" where
  "last_seen ds = foldl (\<lambda>acc d. case d_streamId d of None \<Rightarrow> acc | Some sid \<Rightarrow> Some sid) None ds"


text \<open>
  One call of \<open>sendMessage\<close> on the streaming path that has received the content
  events \<open>ds\<close>: the call is request \<open>length (requests w)\<close>.
\<close>

definition streaming_call ::
  "(string \<Rightarrow> bool) \<Rightarrow> string \<Rightarrow> string option \<Rightarrow> sse_data list \<Rightarrow> world \<Rightarrow> world" where
  "streaming_call valid_url text html ds w =
    deliver valid_url (length (requests w)) (map data_event ds)
      (sendMessage_resume valid_url (length (requests w)) (sendMessage text html w))"

text \<open>
  A session as \<open>initialize\<close> and \<open>startChat\<close> leave it, for an endpoint without
  token and no session to resume.
\<close>

definition example_credentials :: credentials where
  "example_credentials = \<lparr>endpoint = Some ''https://chat.example/api'', token = None, externalId = None\<rparr>"

definition started_world :: world where
  "started_world =
    startChat (\<lambda>s. s) ''device-1'' None (Inr None) (Inr [])
      (initialize example_credentials (initial_world 1700000000000 (\<lambda>k i. 0)))"

text \<open>
  Scenarios on that session.  Two calls of \<open>sendMessage\<close>, the second made while the
  stream of the first is still open.
\<close>

definition first_request :: world where
  "first_request = sendMessage_resume (\<lambda>u. True) 0 (sendMessage ''one'' None started_world)"

definition second_request :: world where
  "second_request = sendMessage_resume (\<lambda>u. True) 1 (sendMessage ''two'' None first_request)"

text \<open>The backend answers the first call with an error event and ends the stream.\<close>

definition backend_error :: world where
  "backend_error =
    stream_close 0
      (onmessage (\<lambda>u. True) 0 (data_event (no_data\<lparr>d_error := Some ''quota exceeded''\<rparr>)) first_request)"

text \<open>
  The backend asks for the upgrade during the first call: the chat socket is created, and
  then opens.
\<close>

definition upgrade_event :: sse_event where
  "upgrade_event = \<lparr>e_event = ''upgrade_to_websocket'', e_data = Inr no_data\<rparr>"

definition upgraded :: world where
  "upgraded = onmessage (\<lambda>u. True) 0 upgrade_event first_request"

definition socket_opened :: world where
  "socket_opened = ws_onopen 0 upgraded"

text \<open>
  The backend ends the socket conversation with an \<open>end\<close> frame and, later in the same
  call, asks for the upgrade again: a second chat socket is created.
\<close>

definition end_frame :: frame where
  "end_frame = \<lparr>f_type = ''end'', f_eventId = None, f_data = None, f_error = None\<rparr>"

definition socket_ended :: world where
  "socket_ended = ws_onmessage 0 end_frame socket_opened"

definition upgraded_again :: world where
  "upgraded_again = onmessage (\<lambda>u. True) 0 upgrade_event socket_ended"

text \<open>A pong, and a request that waits for its acknowledgment, on the open socket.\<close>

definition pong_frame :: frame where
  "pong_frame = \<lparr>f_type = ''pong'', f_eventId = None, f_data = None, f_error = None\<rparr>"

definition pong_received :: world where
  "pong_received = ws_onmessage 0 pong_frame socket_opened"

definition ack_request :: world where
  "ack_request =
    sendWithAck \<lparr>f_type = ''message'', f_eventId = Some ''e1'', f_data = None, f_error = None\<rparr>
      socket_opened"

definition ack_response :: frame where
  "ack_response = \<lparr>f_type = ''message'', f_eventId = Some ''e1'',
     f_data = Some (empty_object\<lparr>m_text := Some ''ok''\<rparr>), f_error = None\<rparr>"

text \<open>
  A call: both callbacks registered (as functions 0 and 1), \<open>startCall\<close>, one audio
  track from \<open>getUserMedia\<close>, the signaling socket created; then the socket opens and
  the offer is created, set as local description and sent.
\<close>

definition call_started :: call_world where
  "call_started =
    startCall_userMedia (\<lambda>u. True) (Inr [0])
      (startCall None
        (setCallCallbacks \<lparr>onCallStatus = Some 0, onCallError = Some 1\<rparr>
          (initial_call_world (Some example_credentials))))"

definition offer_sent :: call_world where
  "offer_sent =
    startCall_localDescription None (startCall_offer (Inr ''v=0'') (call_onopen 0 call_started))"

text \<open>
  The socket channel is live on socket \<open>k\<close> (the current socket is open, the transport
  is \<open>socket\<close>, the channel is not marked disconnected) and every timer that is set
  is a ping interval.
\<close>

definition live_with_pings_only :: "nat \<Rightarrow> world \<Rightarrow> bool" where
  "live_with_pings_only k w =
    (transport (chat w) = SOCKET \<and> \<not> socketDisconnected (sock w) \<and> socket (sock w) = Some k
     \<and> k < length (websockets w) \<and> readyState (websockets w ! k) = OPEN
     \<and> list_all (\<lambda>e. action (snd e) = PingTick) (timers w))"

section \<open>Properties of uuidv7\<close>

lemma upt_16: "[0..<16] = [0, 1, 2, 3, 4, 5, 6, 7, 8, 9, 10, 11, 12, 13, 14, 15]"
  by (simp add: upt_rec)

lemma ToInt32_255: "ToInt32 0xff = mask 8"
  by (simp add: ToInt32_def mask_eq_exp_minus_1)

text \<open>A shift by at most 24 does deliver the byte the comments announce.\<close>

lemma shifted_byte:
  "n \<le> 24 \<Longrightarrow> store_u8 (js_and (js_shr t n) 0xff) = (word_of_int (t div 2 ^ n) :: byte)"
  unfolding store_u8_def js_and_def js_shr_def ToInt32_255
  unfolding ToInt32_def
  by (rule bit_word_eqI) (auto simp add: bit_simps simp flip: drop_bit_eq_div)

text \<open>
  The shift counts 40 and 32 are taken modulo 32: bytes 0 and 1 repeat bytes 4 and 5
  instead of holding bits 40 to 47 and 32 to 39 of the timestamp.
\<close>

lemma uuidv7_high_bytes_repeat_low_bytes:
  "uuidv7_bytes t rnd ! 0 = uuidv7_bytes t rnd ! 4 \<and> uuidv7_bytes t rnd ! 1 = uuidv7_bytes t rnd ! 5"
  by (simp add: uuidv7_bytes_def upt_16 Let_def js_shr_def js_and_def ToInt32_def)

lemma uuidv7_version: "drop_bit 4 (uuidv7_bytes t rnd ! 6) = 7"
  by (simp add: uuidv7_bytes_def upt_16 Let_def)

lemma uuidv7_variant: "drop_bit 6 (uuidv7_bytes t rnd ! 8) = 2"
  by (simp add: uuidv7_bytes_def upt_16 Let_def)

text \<open>
  C9.  At the epoch millisecond 1700000000000 (14 November 2023), whatever the random
  bytes, the first six bytes produced by \<open>uuidv7\<close> are 68 00 cf e5 68 00, whereas the
  big-endian 48-bit encoding of that time is 01 8b cf e5 68 00; the version nibble and
  the variant bits are as announced.
\<close>

theorem uuidv7_timestamp_bytes_at_1700000000000:
  "take 6 (uuidv7_bytes 1700000000000 rnd) = [0x68, 0x00, 0xcf, 0xe5, 0x68, 0x00]
   \<and> be48 1700000000000 = [0x01, 0x8b, 0xcf, 0xe5, 0x68, 0x00]
   \<and> take 6 (uuidv7_bytes 1700000000000 rnd) \<noteq> be48 1700000000000
   \<and> drop_bit 4 (uuidv7_bytes 1700000000000 rnd ! 6) = 7
   \<and> drop_bit 6 (uuidv7_bytes 1700000000000 rnd ! 8) = 2"
proof -
  have a: "take 6 (uuidv7_bytes 1700000000000 rnd) = [0x68, 0x00, 0xcf, 0xe5, 0x68, 0x00]"
    by (simp add: uuidv7_bytes_def upt_16 Let_def store_u8_def js_and_def js_shr_def ToInt32_def)
  have b: "be48 1700000000000 = [0x01, 0x8b, 0xcf, 0xe5, 0x68, 0x00]"
    by (simp add: be48_def upt_rec)
  show ?thesis
    by (simp add: a b uuidv7_version uuidv7_variant)
qed

section \<open>What the operations leave unchanged\<close>

lemma last_index: "xs \<noteq> [] \<Longrightarrow> xs ! (length xs - 1) = last xs"
  by (simp add: last_conv_nth)

lemma update_last: "xs \<noteq> [] \<Longrightarrow> xs[length xs - 1 := y] = butlast xs @ [y]"
  by (induction xs) (auto split: nat.splits)

lemma map_at_length [simp]: "length (map_at i f xs) = length xs"
  by (simp add: map_at_def)

lemma map_at_nth: "map_at i f xs ! j = (if i = j \<and> i < length xs then f (xs ! i) else xs ! j)"
  by (simp add: map_at_def)

lemma call_cb_proj [simp]:
  "chat (call_cb s n w) = chat w" "requests (call_cb s n w) = requests w"
  "controllers (call_cb s n w) = controllers w" "sock (call_cb s n w) = sock w"
  "websockets (call_cb s n w) = websockets w" "timers (call_cb s n w) = timers w"
  "clock (call_cb s n w) = clock w" "acks (call_cb s n w) = acks w"
  by (simp_all add: call_cb_def split: option.split)

lemma addMessage_proj [simp]:
  "chat (addMessage m w) = (chat w)\<lparr>messages := messages (chat w) @ [m]\<rparr>"
  "requests (addMessage m w) = requests w"
  "controllers (addMessage m w) = controllers w" "sock (addMessage m w) = sock w"
  "websockets (addMessage m w) = websockets w" "timers (addMessage m w) = timers w"
  "clock (addMessage m w) = clock w" "acks (addMessage m w) = acks w"
  by (simp_all add: addMessage_def)

lemma setTransport_proj [simp]:
  "chat (setTransport t w) = (chat w)\<lparr>transport := t\<rparr>"
  "requests (setTransport t w) = requests w"
  "controllers (setTransport t w) = controllers w" "sock (setTransport t w) = sock w"
  "websockets (setTransport t w) = websockets w" "timers (setTransport t w) = timers w"
  "clock (setTransport t w) = clock w" "acks (setTransport t w) = acks w"
  by (simp_all add: setTransport_def)

lemma clearTimeout_proj [simp]:
  "chat (clearTimeout h w) = chat w" "requests (clearTimeout h w) = requests w"
  "controllers (clearTimeout h w) = controllers w" "sock (clearTimeout h w) = sock w"
  "websockets (clearTimeout h w) = websockets w" "clock (clearTimeout h w) = clock w"
  "acks (clearTimeout h w) = acks w"
  by (simp_all add: clearTimeout_def split: option.split)

lemma stopPingInterval_proj [simp]:
  "chat (stopPingInterval w) = chat w" "requests (stopPingInterval w) = requests w"
  "controllers (stopPingInterval w) = controllers w"
  "websockets (stopPingInterval w) = websockets w" "clock (stopPingInterval w) = clock w"
  "acks (stopPingInterval w) = acks w"
  "sock (stopPingInterval w) = (sock w)\<lparr>pingInterval := None\<rparr>"
  by (simp_all add: stopPingInterval_def Let_def split: option.split)

lemma clearAllTimeouts_proj [simp]:
  "chat (clearAllTimeouts w) = chat w" "requests (clearAllTimeouts w) = requests w"
  "controllers (clearAllTimeouts w) = controllers w"
  "websockets (clearAllTimeouts w) = websockets w" "clock (clearAllTimeouts w) = clock w"
  "acks (clearAllTimeouts w) = acks w"
  "sock (clearAllTimeouts w) = (sock w)\<lparr>pingInterval := None, socketDisconnectedTimeout := None,
      socketConnectionTimeout := None\<rparr>"
  by (simp_all add: clearAllTimeouts_def Let_def split: option.split)

lemma set_readyState_proj [simp]:
  "chat (set_readyState k st w) = chat w" "requests (set_readyState k st w) = requests w"
  "controllers (set_readyState k st w) = controllers w" "sock (set_readyState k st w) = sock w"
  "timers (set_readyState k st w) = timers w" "clock (set_readyState k st w) = clock w"
  "acks (set_readyState k st w) = acks w"
  "websockets (set_readyState k st w) = map_at k (\<lambda>s. s\<lparr>readyState := st\<rparr>) (websockets w)"
  by (simp_all add: set_readyState_def)

lemma ws_close_proj [simp]:
  "chat (ws_close k w) = chat w" "requests (ws_close k w) = requests w"
  "controllers (ws_close k w) = controllers w" "sock (ws_close k w) = sock w"
  "timers (ws_close k w) = timers w" "clock (ws_close k w) = clock w"
  by (simp_all add: ws_close_def split: ready_state.split)

lemma disconnectSocket_proj [simp]:
  "chat (disconnectSocket w) = (chat w)\<lparr>transport := SSE\<rparr>"
  "requests (disconnectSocket w) = requests w"
  "controllers (disconnectSocket w) = controllers w"
  "sock (disconnectSocket w) = (sock w)\<lparr>socket := None, previouslyConnected := False, pingInterval := None,
      socketDisconnectedTimeout := None, socketConnectionTimeout := None\<rparr>"
  by (simp_all add: disconnectSocket_def Let_def split: option.split)

section \<open>Cleanup\<close>

lemma effect_proj [simp]:
  "call (effect e w) = call w" "effects (effect e w) = effects w @ [e]"
  "streams (effect e w) = streams w" "call_sockets (effect e w) = call_sockets w"
  "awaiting (effect e w) = awaiting w" "intervals (effect e w) = intervals w"
  "peers (effect e w) = peers w" "chat_credentials (effect e w) = chat_credentials w"
  by (simp_all add: effect_def)

lemma stop_tracks_proj [simp]:
  "call (stop_tracks ts w) = call w"
  "effects (stop_tracks ts w) = effects w @ map TrackStopped ts"
  "streams (stop_tracks ts w) = streams w" "call_sockets (stop_tracks ts w) = call_sockets w"
  "awaiting (stop_tracks ts w) = awaiting w" "intervals (stop_tracks ts w) = intervals w"
  "peers (stop_tracks ts w) = peers w" "chat_credentials (stop_tracks ts w) = chat_credentials w"
  unfolding stop_tracks_def by (induction ts arbitrary: w) simp_all

lemma close_call_socket_proj [simp]:
  "call (close_call_socket k w) = call w"
  "effects (close_call_socket k w) = effects w @ [SocketClosed k]"
  "streams (close_call_socket k w) = streams w"
  "awaiting (close_call_socket k w) = awaiting w" "intervals (close_call_socket k w) = intervals w"
  "peers (close_call_socket k w) = peers w"
  by (simp_all add: close_call_socket_def)

lemma call_stopPingInterval_proj [simp]:
  "call (call_stopPingInterval w) = (call w)\<lparr>call_pingInterval := None\<rparr>"
  "effects (call_stopPingInterval w) =
     effects w @ (case call_pingInterval (call w) of None \<Rightarrow> [] | Some i \<Rightarrow> [IntervalCleared i])"
  "streams (call_stopPingInterval w) = streams w"
  "call_sockets (call_stopPingInterval w) = call_sockets w"
  "awaiting (call_stopPingInterval w) = awaiting w" "intervals (call_stopPingInterval w) = intervals w"
  "peers (call_stopPingInterval w) = peers w"
  by (simp_all add: call_stopPingInterval_def Let_def split: option.split)

lemma call_cleanup_session:
  "call (call_cleanup w) = createCallSession (call_callbacks (call w))"
  by (simp add: call_cleanup_def Let_def split: option.split)

lemma cleanup_session:
  "chat (cleanup w) = (createSession (callbacks (chat w)))\<lparr>credentials := credentials (chat w)\<rparr>"
  by (simp add: cleanup_def Let_def split: option.split)

text \<open>
  C10.  After \<open>cleanup\<close> (and so after \<open>disconnect\<close>) of the chat, every field of the
  session has its initial value, except the callbacks object and the credentials, which
  are those of the session before; after the \<open>cleanup\<close> of the call, every field of
  the call session has its initial value, except the callbacks object.
\<close>

theorem cleanup_keeps_callbacks_and_credentials:
  "chat (cleanup w) =
     \<lparr>credentials = credentials (chat w), authenticated = False, configData = None,
      sessionId = None, requestId = None, sseUrl = None, abortController = None,
      lastStreamId = None, messages = [], callbacks = callbacks (chat w), transport = SSE\<rparr>
   \<and> chat (disconnect w) = chat (cleanup w)
   \<and> call (call_cleanup cw) =
     \<lparr>call_sessionId = None, call_socket = None, peerConnection = None, localStream = None,
      remoteStream = None, remoteAudio = None, isMuted = False, callStatus = ''disconnected'',
      call_pingInterval = None, pingCount = 0, lastPongTime = None,
      call_callbacks = call_callbacks (call cw)\<rparr>"
  by (simp add: cleanup_session call_cleanup_session disconnect_def createSession_def createCallSession_def)

section \<open>sendMessage on the streaming path\<close>

lemma set_phase_proj [simp]:
  "chat (set_phase r ph w) = chat w"
  "requests (set_phase r ph w) = map_at r (\<lambda>q. q\<lparr>r_phase := ph\<rparr>) (requests w)"
  "controllers (set_phase r ph w) = controllers w" "sock (set_phase r ph w) = sock w"
  "websockets (set_phase r ph w) = websockets w" "timers (set_phase r ph w) = timers w"
  by (simp_all add: set_phase_def)

lemma settle_request_proj [simp]:
  "chat (settle_request r v w) = chat w"
  "requests (settle_request r v w) = map_at r (\<lambda>q. q\<lparr>r_promise := settle (r_promise q) v\<rparr>) (requests w)"
  "controllers (settle_request r v w) = controllers w" "sock (settle_request r v w) = sock w"
  "websockets (settle_request r v w) = websockets w" "timers (settle_request r v w) = timers w"
  by (simp_all add: settle_request_def)

lemma sendMessage_proj [simp]:
  "chat (sendMessage text html w) =
     (chat w)\<lparr>messages := messages (chat w) @ [userMessage text html (clock w)]\<rparr>"
  "requests (sendMessage text html w) =
     requests w @ [\<lparr>r_text = text, r_html = html, r_promise = Pending, r_phase = Sleeping\<rparr>]"
  "controllers (sendMessage text html w) = controllers w"
  "sock (sendMessage text html w) = sock w"
  "websockets (sendMessage text html w) = websockets w"
  by (simp_all add: sendMessage_def Let_def)

lemma resume_streaming:
  assumes "r < length (requests w)" "r_phase (requests w ! r) = Sleeping"
    and "transport (chat w) = SSE \<or> \<not> isConnected w"
    and "sseUrl (chat w) = Some u" "valid_url u"
  shows "chat (sendMessage_resume valid_url r w) =
           (chat w)\<lparr>messages := messages (chat w) @ [loadingMessage], lastStreamId := None,
                     abortController := Some (length (controllers w))\<rparr>"
    and "requests (sendMessage_resume valid_url r w) =
           map_at r (\<lambda>q. q\<lparr>r_phase := Streaming (length (controllers w))\<rparr>) (requests w)"
    and "controllers (sendMessage_resume valid_url r w) = controllers w @ [False]"
    and "sock (sendMessage_resume valid_url r w) = sock w"
    and "websockets (sendMessage_resume valid_url r w) = websockets w"
  using assms by (auto simp add: sendMessage_resume_def Let_def)


lemma start_proj [simp]:
  "requests (start_on_new_streamId d w) = requests w"
  "controllers (start_on_new_streamId d w) = controllers w"
  "sock (start_on_new_streamId d w) = sock w"
  "websockets (start_on_new_streamId d w) = websockets w"
  by (simp_all add: start_on_new_streamId_def split: option.split)

lemma start_chat:
  "chat (start_on_new_streamId d w) =
    (case d_streamId d of None \<Rightarrow> chat w
     | Some sid \<Rightarrow>
        (case lastStreamId (chat w) of None \<Rightarrow> (chat w)\<lparr>lastStreamId := Some sid\<rparr>
         | Some l \<Rightarrow> if sid \<noteq> l
                     then (chat w)\<lparr>lastStreamId := Some sid, messages := messages (chat w) @ [loadingMessage]\<rparr>
                     else chat w))"
  by (simp add: start_on_new_streamId_def split: option.split)

lemma start_messages_nonempty:
  "messages (chat w) \<noteq> [] \<Longrightarrow> messages (chat (start_on_new_streamId d w)) \<noteq> []"
  by (simp add: start_chat split: option.split)

lemma catch_block_proj [simp]:
  "controllers (catch_block e r w) = controllers w" "sock (catch_block e r w) = sock w"
  "websockets (catch_block e r w) = websockets w"
  by (simp_all add: catch_block_def Let_def split: list.split)

lemma content_event_proj [simp]:
  "controllers (content_event r d msg w) = controllers w"
  "sock (content_event r d msg w) = sock w"
  "websockets (content_event r d msg w) = websockets w"
  by (simp_all add: content_event_def Let_def split: list.split)

lemma content_event_chat:
  assumes "messages (chat (start_on_new_streamId d w)) \<noteq> []"
  shows "chat (content_event r d msg w) =
     (chat (start_on_new_streamId d w))\<lparr>
        messages := butlast (messages (chat (start_on_new_streamId d w)))
                    @ [updatedMsg d msg (last (messages (chat (start_on_new_streamId d w))))],
        sessionId := (case d_session_id d of None \<Rightarrow> sessionId (chat (start_on_new_streamId d w)) | Some x \<Rightarrow> Some x),
        requestId := (case d_requestId d of None \<Rightarrow> requestId (chat (start_on_new_streamId d w)) | Some x \<Rightarrow> Some x)\<rparr>"
proof -
  define w1 where "w1 = start_on_new_streamId d w"
  obtain m ms where ms: "messages (chat w1) = m # ms"
    using assms unfolding w1_def by (cases "messages (chat (start_on_new_streamId d w))") auto
  have l: "(m # ms) ! (length (m # ms) - 1) = last (m # ms)"
    by (rule last_index) simp
  have u: "(m # ms)[length (m # ms) - 1 := y] = butlast (m # ms) @ [y]" for y
    by (rule update_last) simp
  show ?thesis
    unfolding content_event_def w1_def [symmetric]
    apply (simp only: Let_def ms list.case l u)
    apply (simp only: ms [symmetric])
    apply (simp split: option.split)
    done
qed

lemma content_event_requests:
  assumes "messages (chat (start_on_new_streamId d w)) \<noteq> []"
  shows "requests (content_event r d msg w) =
     (if truthy_bool (d_done d)
      then map_at r (\<lambda>q. q\<lparr>r_promise := settle (r_promise q) (Resolved (sessionId (chat w)))\<rparr>) (requests w)
      else requests w)"
proof -
  define w1 where "w1 = start_on_new_streamId d w"
  obtain m ms where ms: "messages (chat w1) = m # ms"
    using assms unfolding w1_def by (cases "messages (chat (start_on_new_streamId d w))") auto
  have s: "sessionId (chat w1) = sessionId (chat w)"
    unfolding w1_def by (simp add: start_chat split: option.split)
  have rq: "requests w1 = requests w"
    unfolding w1_def by simp
  show ?thesis
    unfolding content_event_def w1_def [symmetric]
    apply (simp only: Let_def ms list.case)
    apply (simp only: ms [symmetric])
    apply (simp add: s rq)
    done
qed

lemma onmessage_content:
  "in_flight r w \<Longrightarrow> d_message d = Some msg \<Longrightarrow>
     onmessage valid_url r (data_event d) w = content_event r d msg w"
  by (simp add: onmessage_def data_event_def)

lemma onmessage_connected:
  assumes "in_flight r w"
  shows "chat (onmessage valid_url r (connected_event sid) w) = (chat w)\<lparr>sessionId := Some sid, requestId := None\<rparr>"
    and "requests (onmessage valid_url r (connected_event sid) w) = requests w"
    and "controllers (onmessage valid_url r (connected_event sid) w) = controllers w"
  using assms by (simp_all add: onmessage_def connected_event_def no_data_def)

lemma in_flight_cong:
  "controllers w' = controllers w \<Longrightarrow> length (requests w') = length (requests w) \<Longrightarrow>
   r_phase (requests w' ! r) = r_phase (requests w ! r) \<Longrightarrow> in_flight r w' = in_flight r w"
  by (auto simp add: in_flight_def split: phase.splits)

lemma content_event_in_flight:
  assumes "messages (chat w) \<noteq> []"
  shows "in_flight r' (content_event r d msg w) = in_flight r' w"
  by (rule in_flight_cong)
     (simp_all add: content_event_requests [OF start_messages_nonempty [OF assms]] map_at_nth)

text \<open>One content event, for a request in flight whose list ends with an assistant message.\<close>

lemma content_step:
  assumes "in_flight r w" "messages (chat w) \<noteq> []" "d_message d = Some msg"
  shows "in_flight r (onmessage valid_url r (data_event d) w)"
    and "messages (chat (onmessage valid_url r (data_event d) w)) \<noteq> []"
    and "m_role (last (messages (chat w))) = Some BOT \<Longrightarrow>
         m_role (last (messages (chat (onmessage valid_url r (data_event d) w)))) = Some BOT"
    and "lastStreamId (chat (onmessage valid_url r (data_event d) w)) =
         (case d_streamId d of None \<Rightarrow> lastStreamId (chat w) | Some sid \<Rightarrow> Some sid)"
proof -
  note ne = start_messages_nonempty [OF assms(2), of d]
  note eq = onmessage_content [OF assms(1) assms(3), of valid_url]
  show "in_flight r (onmessage valid_url r (data_event d) w)"
    by (simp add: eq content_event_in_flight [OF assms(2)] assms(1))
  show "messages (chat (onmessage valid_url r (data_event d) w)) \<noteq> []"
    by (simp add: eq content_event_chat [OF ne])
  show "lastStreamId (chat (onmessage valid_url r (data_event d) w)) =
         (case d_streamId d of None \<Rightarrow> lastStreamId (chat w) | Some sid \<Rightarrow> Some sid)"
    by (simp add: eq content_event_chat [OF ne] start_chat split: option.split)
  show "m_role (last (messages (chat (onmessage valid_url r (data_event d) w)))) = Some BOT"
    if "m_role (last (messages (chat w))) = Some BOT"
    using that assms(2)
    by (simp add: eq content_event_chat [OF ne] start_chat updatedMsg_def loadingMessage_def
        split: option.split)
qed


lemma deliver_Cons: "deliver valid_url r (e # es) w = deliver valid_url r es (onmessage valid_url r e w)"
  by (simp add: deliver_def)

lemma deliver_content:
  assumes "in_flight r w" "messages (chat w) \<noteq> []" "\<forall>d\<in>set ds. d_message d \<noteq> None"
  shows "in_flight r (deliver valid_url r (map data_event ds) w)
       \<and> messages (chat (deliver valid_url r (map data_event ds) w)) \<noteq> []
       \<and> (m_role (last (messages (chat w))) = Some BOT \<longrightarrow>
            m_role (last (messages (chat (deliver valid_url r (map data_event ds) w)))) = Some BOT)
       \<and> lastStreamId (chat (deliver valid_url r (map data_event ds) w)) =
            foldl (\<lambda>acc d. case d_streamId d of None \<Rightarrow> acc | Some sid \<Rightarrow> Some sid) (lastStreamId (chat w)) ds"
  using assms
proof (induction ds arbitrary: w)
  case Nil
  then show ?case by (simp add: deliver_def)
next
  case (Cons d ds)
  from Cons.prems(3) obtain msg where msg: "d_message d = Some msg" by auto
  note step = content_step [OF Cons.prems(1) Cons.prems(2) msg, of valid_url]
  have rest: "\<forall>d\<in>set ds. d_message d \<noteq> None" using Cons.prems(3) by simp
  show ?case
    using Cons.IH [OF step(1) step(2) rest] step(3) step(4)
    by (simp add: deliver_Cons)
qed

lemma streaming_call_start:
  assumes "transport (chat w) = SSE \<or> \<not> isConnected w" "sseUrl (chat w) = Some u" "valid_url u"
  shows "in_flight (length (requests w)) (sendMessage_resume valid_url (length (requests w)) (sendMessage t h w))"
    and "chat (sendMessage_resume valid_url (length (requests w)) (sendMessage t h w)) =
           (chat w)\<lparr>messages := messages (chat w) @ [userMessage t h (clock w), loadingMessage],
                     lastStreamId := None, abortController := Some (length (controllers w))\<rparr>"
    and "requests (sendMessage_resume valid_url (length (requests w)) (sendMessage t h w)) =
           requests w @ [\<lparr>r_text = t, r_html = h, r_promise = Pending,
                           r_phase = Streaming (length (controllers w))\<rparr>]"
    and "controllers (sendMessage_resume valid_url (length (requests w)) (sendMessage t h w)) =
           controllers w @ [False]"
proof -
  let ?w1 = "sendMessage t h w"
  have a: "length (requests w) < length (requests ?w1)" by simp
  have b: "r_phase (requests ?w1 ! length (requests w)) = Sleeping" by simp
  have c: "transport (chat ?w1) = SSE \<or> \<not> isConnected ?w1" using assms(1) by (auto simp add: isConnected_def split: option.splits)
  have d: "sseUrl (chat ?w1) = Some u" using assms(2) by simp
  note res = resume_streaming [where valid_url = valid_url and u = u, OF a b c d assms(3)]
  show "chat (sendMessage_resume valid_url (length (requests w)) ?w1) =
           (chat w)\<lparr>messages := messages (chat w) @ [userMessage t h (clock w), loadingMessage],
                     lastStreamId := None, abortController := Some (length (controllers w))\<rparr>"
    by (simp add: res(1))
  show rq: "requests (sendMessage_resume valid_url (length (requests w)) ?w1) =
           requests w @ [\<lparr>r_text = t, r_html = h, r_promise = Pending,
                           r_phase = Streaming (length (controllers w))\<rparr>]"
    by (simp add: res(2) map_at_def)
  show ct: "controllers (sendMessage_resume valid_url (length (requests w)) ?w1) = controllers w @ [False]"
    by (simp add: res(3))
  show "in_flight (length (requests w)) (sendMessage_resume valid_url (length (requests w)) ?w1)"
    by (simp add: in_flight_def rq ct)
qed


lemma onmessage_content_chat:
  assumes "in_flight r w" "messages (chat w) \<noteq> []" "d_message d = Some msg"
  shows "chat (onmessage valid_url r (data_event d) w) =
     (chat (start_on_new_streamId d w))\<lparr>
        messages := butlast (messages (chat (start_on_new_streamId d w)))
                    @ [updatedMsg d msg (last (messages (chat (start_on_new_streamId d w))))],
        sessionId := (case d_session_id d of None \<Rightarrow> sessionId (chat (start_on_new_streamId d w)) | Some x \<Rightarrow> Some x),
        requestId := (case d_requestId d of None \<Rightarrow> requestId (chat (start_on_new_streamId d w)) | Some x \<Rightarrow> Some x)\<rparr>"
  by (simp only: onmessage_content [OF assms(1) assms(3)]
        content_event_chat [OF start_messages_nonempty [OF assms(2)]])

lemma onmessage_content_requests:
  assumes "in_flight r w" "messages (chat w) \<noteq> []" "d_message d = Some msg"
  shows "requests (onmessage valid_url r (data_event d) w) =
     (if truthy_bool (d_done d)
      then map_at r (\<lambda>q. q\<lparr>r_promise := settle (r_promise q) (Resolved (sessionId (chat w)))\<rparr>) (requests w)
      else requests w)"
  by (simp only: onmessage_content [OF assms(1) assms(3)]
        content_event_requests [OF start_messages_nonempty [OF assms(2)]])

text \<open>Scenario C, from any session on the streaming transport.\<close>

lemma scenario_C:
  assumes "transport (chat w) = SSE" "sseUrl (chat w) = Some u" "valid_url u"
  shows "messages (chat (streaming_call valid_url t h
            [fragment ''X'' (Some ''a'') None, fragment ''Y'' (Some ''a'') None,
             fragment ''Z'' (Some ''b'') None] w)) =
         messages (chat w) @
           [userMessage t h (clock w),
            loadingMessage\<lparr>m_loading := Some False, m_text := Some ''XY''\<rparr>,
            loadingMessage\<lparr>m_loading := Some False, m_text := Some ''Z''\<rparr>]"
proof -
  define r where "r = length (requests w)"
  define w2 where "w2 = sendMessage_resume valid_url r (sendMessage t h w)"
  define w3 where "w3 = onmessage valid_url r (data_event (fragment ''X'' (Some ''a'') None)) w2"
  define w4 where "w4 = onmessage valid_url r (data_event (fragment ''Y'' (Some ''a'') None)) w3"
  define w5 where "w5 = onmessage valid_url r (data_event (fragment ''Z'' (Some ''b'') None)) w4"
  note start = streaming_call_start [where valid_url = valid_url and t = t and h = h, OF disjI1 [OF assms(1)] assms(2) assms(3)]
  have f2: "in_flight r w2" and c2: "chat w2 =
      (chat w)\<lparr>messages := messages (chat w) @ [userMessage t h (clock w), loadingMessage],
                lastStreamId := None, abortController := Some (length (controllers w))\<rparr>"
    unfolding w2_def r_def by (rule start(1), rule start(2))
  have n2: "messages (chat w2) \<noteq> []" by (simp add: c2)
  have m: "d_message (fragment t sid dn) = Some t" for t sid dn
    by (simp add: fragment_def no_data_def)
  have f3: "in_flight r w3" and n3: "messages (chat w3) \<noteq> []"
    unfolding w3_def by (rule content_step [OF f2 n2 m])+
  have c3: "messages (chat w3) = messages (chat w) @
      [userMessage t h (clock w), loadingMessage\<lparr>m_loading := Some False, m_text := Some ''X''\<rparr>]"
    and l3: "lastStreamId (chat w3) = Some ''a''"
    unfolding w3_def onmessage_content_chat [OF f2 n2 m]
    by (simp_all add: start_chat c2 fragment_def no_data_def
        updatedMsg_def loadingMessage_def empty_object_def or_else_def butlast_append)
  have f4: "in_flight r w4" and n4: "messages (chat w4) \<noteq> []"
    unfolding w4_def by (rule content_step [OF f3 n3 m])+
  have c4: "messages (chat w4) = messages (chat w) @
      [userMessage t h (clock w), loadingMessage\<lparr>m_loading := Some False, m_text := Some ''XY''\<rparr>]"
    and l4: "lastStreamId (chat w4) = Some ''a''"
    unfolding w4_def onmessage_content_chat [OF f3 n3 m]
    by (simp_all add: start_chat c3 l3 fragment_def no_data_def
        updatedMsg_def loadingMessage_def empty_object_def or_else_def butlast_append)
  have c5: "messages (chat w5) = messages (chat w) @
      [userMessage t h (clock w), loadingMessage\<lparr>m_loading := Some False, m_text := Some ''XY''\<rparr>,
       loadingMessage\<lparr>m_loading := Some False, m_text := Some ''Z''\<rparr>]"
    unfolding w5_def onmessage_content_chat [OF f4 n4 m]
    by (simp add: start_chat c4 l4 fragment_def no_data_def
        updatedMsg_def loadingMessage_def empty_object_def or_else_def butlast_append)
  have "streaming_call valid_url t h
            [fragment ''X'' (Some ''a'') None, fragment ''Y'' (Some ''a'') None,
             fragment ''Z'' (Some ''b'') None] w = w5"
    by (simp add: streaming_call_def deliver_def w5_def w4_def w3_def w2_def r_def)
  then show ?thesis by (simp add: c5)
qed


text \<open>
  C2.  Take one call of \<open>sendMessage\<close> on the streaming path that has received the
  content events \<open>ds\<close>, and a further content event \<open>d\<close> with text \<open>msg\<close>.  The
  tail of the message list is an assistant message.  If the \<open>streamId\<close> of \<open>d\<close>
  equals the one seen last, the event replaces the tail by the tail with \<open>msg\<close> appended
  to its text, and changes no other message.  If it differs from the one seen last, the
  list keeps all its messages and gains a new assistant message whose text is \<open>msg\<close>.
  The events X, Y, Z with the \<open>streamId\<close>s a, a, b add to the list the user message and
  exactly two assistant messages, with the texts XY and Z.
\<close>

theorem fragments_grouped_by_streamId:
  assumes "transport (chat w) = SSE" "sseUrl (chat w) = Some u" "valid_url u"
    and "\<forall>d\<in>set ds. d_message d \<noteq> None" and "d_message d = Some msg"
  shows "let r = length (requests w);
             v = streaming_call valid_url t h ds w;
             ms = messages (chat v);
             ms' = messages (chat (onmessage valid_url r (data_event d) v))
         in m_role (last ms) = Some BOT
          \<and> (d_streamId d \<noteq> None \<and> d_streamId d = last_seen ds \<longrightarrow>
               ms' = butlast ms @ [updatedMsg d msg (last ms)])
          \<and> (d_streamId d \<noteq> None \<and> last_seen ds \<noteq> None \<and> d_streamId d \<noteq> last_seen ds \<longrightarrow>
               ms' = ms @ [updatedMsg d msg loadingMessage])
          \<and> m_text (updatedMsg d msg (last ms)) = Some (or_else (m_text (last ms)) [] @ msg)
          \<and> m_role (updatedMsg d msg (last ms)) = Some BOT
          \<and> m_text (updatedMsg d msg loadingMessage) = Some msg
          \<and> m_role (updatedMsg d msg loadingMessage) = Some BOT
          \<and> messages (chat (streaming_call valid_url t h
                [fragment ''X'' (Some ''a'') None, fragment ''Y'' (Some ''a'') None,
                 fragment ''Z'' (Some ''b'') None] w)) =
              messages (chat w) @
                [userMessage t h (clock w),
                 loadingMessage\<lparr>m_loading := Some False, m_text := Some ''XY''\<rparr>,
                 loadingMessage\<lparr>m_loading := Some False, m_text := Some ''Z''\<rparr>]"
proof -
  define r where "r = length (requests w)"
  define w2 where "w2 = sendMessage_resume valid_url r (sendMessage t h w)"
  define v where "v = streaming_call valid_url t h ds w"
  note start = streaming_call_start [where valid_url = valid_url and t = t and h = h, OF disjI1 [OF assms(1)] assms(2) assms(3)]
  have f2: "in_flight r w2" and c2: "chat w2 =
      (chat w)\<lparr>messages := messages (chat w) @ [userMessage t h (clock w), loadingMessage],
                lastStreamId := None, abortController := Some (length (controllers w))\<rparr>"
    unfolding w2_def r_def by (rule start(1), rule start(2))
  have n2: "messages (chat w2) \<noteq> []" by (simp add: c2)
  have b2: "m_role (last (messages (chat w2))) = Some BOT" by (simp add: c2 loadingMessage_def)
  have l2: "lastStreamId (chat w2) = None" by (simp add: c2)
  have v: "v = deliver valid_url r (map data_event ds) w2"
    by (simp add: v_def streaming_call_def w2_def r_def)
  from deliver_content [OF f2 n2 assms(4), of valid_url] b2 l2
  have fv: "in_flight r v" and nv: "messages (chat v) \<noteq> []"
    and bv: "m_role (last (messages (chat v))) = Some BOT"
    and lv: "lastStreamId (chat v) = last_seen ds"
    by (simp_all add: v last_seen_def)
  note step = onmessage_content_chat [OF fv nv assms(5), of valid_url]
  have same: "messages (chat (onmessage valid_url r (data_event d) v)) =
                butlast (messages (chat v)) @ [updatedMsg d msg (last (messages (chat v)))]"
    if "d_streamId d \<noteq> None" "d_streamId d = last_seen ds"
    using that by (auto simp add: step start_chat lv [symmetric])
  have new: "messages (chat (onmessage valid_url r (data_event d) v)) =
                messages (chat v) @ [updatedMsg d msg loadingMessage]"
    if "d_streamId d \<noteq> None" "last_seen ds \<noteq> None" "d_streamId d \<noteq> last_seen ds"
    using that by (auto simp add: step start_chat lv [symmetric])
  have texts: "m_text (updatedMsg d msg (last (messages (chat v)))) =
                 Some (or_else (m_text (last (messages (chat v)))) [] @ msg)"
      "m_role (updatedMsg d msg (last (messages (chat v)))) = Some BOT"
      "m_text (updatedMsg d msg loadingMessage) = Some msg"
      "m_role (updatedMsg d msg loadingMessage) = Some BOT"
    using bv by (simp_all add: updatedMsg_def loadingMessage_def or_else_def)
  show ?thesis
    unfolding Let_def v_def [symmetric] r_def [symmetric]
    using bv same new texts scenario_C [where valid_url = valid_url and t = t and h = h, OF assms(1) assms(2) assms(3)] by blast
qed


lemma started_world_chat:
  "chat started_world =
     \<lparr>credentials = Some example_credentials, authenticated = True, configData = None,
      sessionId = None, requestId = None,
      sseUrl = Some ''https://chat.example/api?externalId=device-1'', abortController = None,
      lastStreamId = None, messages = [], callbacks = no_chat_callbacks, transport = SSE\<rparr>"
  by (simp add: started_world_def startChat_def initialize_def initial_world_def createSession_def
      example_credentials_def truthy_str_def getExternalId_def)

lemma started_world_rest:
  "requests started_world = []" "controllers started_world = []" "sock started_world = createSocketSession"
  "websockets started_world = []" "timers started_world = []" "clock started_world = 1700000000000"
  "acks started_world = []" "notifications started_world = []"
  by (simp_all add: started_world_def startChat_def initialize_def initial_world_def createSession_def
      example_credentials_def truthy_str_def getExternalId_def)

theorem fragments_grouped_by_streamId_witness:
  "transport (chat started_world) = SSE
   \<and> sseUrl (chat started_world) = Some ''https://chat.example/api?externalId=device-1''
   \<and> d_message (fragment ''X'' (Some ''a'') None) = Some ''X''
   \<and> d_message (fragment ''Y'' (Some ''a'') None) = Some ''Y''
   \<and> d_streamId (fragment ''Y'' (Some ''a'') None) = last_seen [fragment ''X'' (Some ''a'') None]
   \<and> messages (chat (onmessage (\<lambda>u. True) 0 (data_event (fragment ''Y'' (Some ''a'') None))
        (streaming_call (\<lambda>u. True) ''q'' None [fragment ''X'' (Some ''a'') None] started_world))) =
      butlast (messages (chat (streaming_call (\<lambda>u. True) ''q'' None [fragment ''X'' (Some ''a'') None] started_world)))
      @ [updatedMsg (fragment ''Y'' (Some ''a'') None) ''Y''
           (last (messages (chat (streaming_call (\<lambda>u. True) ''q'' None [fragment ''X'' (Some ''a'') None] started_world))))]"
proof -
  have h1: "transport (chat started_world) = SSE"
    and h2: "sseUrl (chat started_world) = Some ''https://chat.example/api?externalId=device-1''"
    by (simp_all add: started_world_chat)
  have h3: "(\<lambda>u. True) ''https://chat.example/api?externalId=device-1''" by simp
  have h4: "\<forall>d\<in>set [fragment ''X'' (Some ''a'') None]. d_message d \<noteq> None"
    by (simp add: fragment_def no_data_def)
  have h5: "d_message (fragment ''Y'' (Some ''a'') None) = Some ''Y''"
    by (simp add: fragment_def no_data_def)
  have h6: "d_streamId (fragment ''Y'' (Some ''a'') None) = last_seen [fragment ''X'' (Some ''a'') None]"
    "d_streamId (fragment ''Y'' (Some ''a'') None) \<noteq> None"
    by (simp_all add: fragment_def no_data_def last_seen_def)
  have r0: "length (requests started_world) = 0" by (simp add: started_world_rest)
  from fragments_grouped_by_streamId [where valid_url = "\<lambda>u. True" and t = "''q''" and h = None, OF h1 h2 h3 h4 h5]
  show ?thesis
    unfolding Let_def r0 using h1 h2 h5 h6 by (simp add: fragment_def no_data_def)
qed

text \<open>
  C1.  In a session with no message yet and the streaming transport,
  \<open>sendMessage({text: "hi"})\<close> followed by the opening of the stream and the events
  \<open>connected {sessionId: "s1"}\<close>, \<open>{message: "Hel"}\<close>,
  \<open>{message: "lo", done: true}\<close> leaves exactly two messages, the user message "hi"
  and an assistant message with text "Hello" and \<open>done = true\<close>; the promise is pending
  until the last event and is then resolved with "s1".
\<close>

theorem scenario_A_hello:
  assumes "messages (chat w) = []" "transport (chat w) = SSE" "sseUrl (chat w) = Some u" "valid_url u"
  shows "let r = length (requests w);
             w1 = sendMessage ''hi'' None w;
             w2 = sendMessage_resume valid_url r w1;
             w3 = onopen r True w2;
             w4 = deliver valid_url r [connected_event ''s1'', data_event (fragment ''Hel'' None None)] w3;
             w5 = deliver valid_url r [data_event (fragment ''lo'' None (Some True))] w4
         in messages (chat w5) =
              [empty_object\<lparr>m_role := Some ''user'', m_text := Some ''hi'',
                 m_timestamp := Some (Instant (clock w))\<rparr>,
               empty_object\<lparr>m_role := Some ''assistant'', m_text := Some ''Hello'',
                 m_loading := Some False, m_done := Some True\<rparr>]
          \<and> r_promise (requests w4 ! r) = Pending
          \<and> r_promise (requests w5 ! r) = Resolved (Some ''s1'')"
proof -
  define r where "r = length (requests w)"
  define w2 where "w2 = sendMessage_resume valid_url r (sendMessage ''hi'' None w)"
  define w3 where "w3 = onmessage valid_url r (connected_event ''s1'') w2"
  define w4 where "w4 = onmessage valid_url r (data_event (fragment ''Hel'' None None)) w3"
  define w5 where "w5 = onmessage valid_url r (data_event (fragment ''lo'' None (Some True))) w4"
  note start = streaming_call_start [where valid_url = valid_url and t = "''hi''" and h = None, OF disjI1 [OF assms(2)] assms(3) assms(4)]
  have f2: "in_flight r w2"
    and c2: "chat w2 = (chat w)\<lparr>messages := messages (chat w) @ [userMessage ''hi'' None (clock w), loadingMessage],
                lastStreamId := None, abortController := Some (length (controllers w))\<rparr>"
    and q2: "requests w2 = requests w @ [\<lparr>r_text = ''hi'', r_html = None, r_promise = Pending,
                           r_phase = Streaming (length (controllers w))\<rparr>]"
    and k2: "controllers w2 = controllers w @ [False]"
    unfolding w2_def r_def by (rule start(1), rule start(2), rule start(3), rule start(4))
  have o2: "onopen r True w2 = w2" by (simp add: onopen_def)
  have c3: "chat w3 = (chat w2)\<lparr>sessionId := Some ''s1'', requestId := None\<rparr>"
    and q3: "requests w3 = requests w2" and k3: "controllers w3 = controllers w2"
    unfolding w3_def by (rule onmessage_connected [OF f2])+
  have f3: "in_flight r w3"
    using f2 by (subst in_flight_cong [where w = w2]) (simp_all add: q3 k3)
  have n3: "messages (chat w3) \<noteq> []" by (simp add: c3 c2)
  have m: "d_message (fragment x sid dn) = Some x" for x sid dn
    by (simp add: fragment_def no_data_def)
  have f4: "in_flight r w4" and n4: "messages (chat w4) \<noteq> []"
    unfolding w4_def by (rule content_step [OF f3 n3 m])+
  have c4: "messages (chat w4) =
      [userMessage ''hi'' None (clock w), loadingMessage\<lparr>m_loading := Some False, m_text := Some ''Hel''\<rparr>]"
    and s4: "sessionId (chat w4) = Some ''s1''"
    unfolding w4_def onmessage_content_chat [OF f3 n3 m]
    by (simp_all add: start_chat c3 c2 assms(1) fragment_def no_data_def
        updatedMsg_def loadingMessage_def empty_object_def or_else_def)
  have q4: "requests w4 = requests w2"
    unfolding w4_def onmessage_content_requests [OF f3 n3 m]
    by (simp add: q3 fragment_def no_data_def truthy_bool_def)
  have c5: "messages (chat w5) =
      [userMessage ''hi'' None (clock w),
       loadingMessage\<lparr>m_loading := Some False, m_text := Some ''Hello'', m_done := Some True\<rparr>]"
    unfolding w5_def onmessage_content_chat [OF f4 n4 m]
    by (simp add: start_chat c4 fragment_def no_data_def
        updatedMsg_def loadingMessage_def empty_object_def or_else_def)
  have q5: "r_promise (requests w5 ! r) = Resolved (Some ''s1'')"
    unfolding w5_def onmessage_content_requests [OF f4 n4 m]
    by (simp add: q4 q2 s4 r_def fragment_def no_data_def truthy_bool_def map_at_def settle_def)
  have p4: "r_promise (requests w4 ! r) = Pending"
    by (simp add: q4 q2 r_def)
  have "messages (chat w5) =
              [empty_object\<lparr>m_role := Some ''user'', m_text := Some ''hi'',
                 m_timestamp := Some (Instant (clock w))\<rparr>,
               empty_object\<lparr>m_role := Some ''assistant'', m_text := Some ''Hello'',
                 m_loading := Some False, m_done := Some True\<rparr>]"
    by (simp add: c5 userMessage_def loadingMessage_def empty_object_def USER_def BOT_def)
  then show ?thesis
    unfolding Let_def deliver_def r_def [symmetric]
    by (simp add: o2 w2_def [symmetric] w3_def [symmetric] w4_def [symmetric] w5_def [symmetric] p4 q5)
qed

theorem scenario_A_hello_witness:
  "messages (chat started_world) = [] \<and> transport (chat started_world) = SSE
   \<and> sseUrl (chat started_world) = Some ''https://chat.example/api?externalId=device-1''
   \<and> (let w1 = sendMessage ''hi'' None started_world;
            w2 = sendMessage_resume (\<lambda>u. True) 0 w1;
            w3 = onopen 0 True w2;
            w4 = deliver (\<lambda>u. True) 0 [connected_event ''s1'', data_event (fragment ''Hel'' None None)] w3;
            w5 = deliver (\<lambda>u. True) 0 [data_event (fragment ''lo'' None (Some True))] w4
        in messages (chat w5) =
              [empty_object\<lparr>m_role := Some ''user'', m_text := Some ''hi'',
                 m_timestamp := Some (Instant 1700000000000)\<rparr>,
               empty_object\<lparr>m_role := Some ''assistant'', m_text := Some ''Hello'',
                 m_loading := Some False, m_done := Some True\<rparr>]
          \<and> r_promise (requests w4 ! 0) = Pending
          \<and> r_promise (requests w5 ! 0) = Resolved (Some ''s1''))"
proof -
  have h1: "messages (chat started_world) = []" and h2: "transport (chat started_world) = SSE"
    and h3: "sseUrl (chat started_world) = Some ''https://chat.example/api?externalId=device-1''"
    by (simp_all add: started_world_chat)
  have h4: "(\<lambda>u. True) ''https://chat.example/api?externalId=device-1''" by simp
  have r0: "length (requests started_world) = 0" and cl: "clock started_world = 1700000000000"
    by (simp_all add: started_world_rest)
  from scenario_A_hello [where valid_url = "\<lambda>u. True", OF h1 h2 h3 h4]
  show ?thesis
    unfolding Let_def r0 cl using h1 h2 h3 by blast
qed

section \<open>Concurrent and failing exchanges\<close>

lemma cleanup_controllers:
  "controllers (cleanup w) =
     (case abortController (chat w) of None \<Rightarrow> controllers w
      | Some c \<Rightarrow> (controllers w)[c := True])"
  and cleanup_requests: "requests (cleanup w) = requests w"
  by (simp_all add: cleanup_def Let_def split: option.split)

lemma first_request_facts:
  "in_flight 0 first_request"
  "chat first_request =
     (chat started_world)\<lparr>messages := [userMessage ''one'' None 1700000000000, loadingMessage],
        lastStreamId := None, abortController := Some 0\<rparr>"
  "requests first_request =
     [\<lparr>r_text = ''one'', r_html = None, r_promise = Pending, r_phase = Streaming 0\<rparr>]"
  "controllers first_request = [False]"
  "sock first_request = createSocketSession"
proof -
  have h: "transport (chat started_world) = SSE \<or> \<not> isConnected started_world"
    "sseUrl (chat started_world) = Some ''https://chat.example/api?externalId=device-1''"
    "(\<lambda>u. True) ''https://chat.example/api?externalId=device-1''"
    by (simp_all add: started_world_chat)
  note start = streaming_call_start [where valid_url = "\<lambda>u. True" and t = "''one''" and h = None, OF h]
  have e: "first_request =
      sendMessage_resume (\<lambda>u. True) (length (requests started_world)) (sendMessage ''one'' None started_world)"
    by (simp add: first_request_def started_world_rest)
  show "in_flight 0 first_request"
    using start(1) by (simp add: e started_world_rest)
  show "chat first_request =
     (chat started_world)\<lparr>messages := [userMessage ''one'' None 1700000000000, loadingMessage],
        lastStreamId := None, abortController := Some 0\<rparr>"
    by (simp add: e start(2)) (simp add: started_world_rest started_world_chat)
  show "requests first_request =
     [\<lparr>r_text = ''one'', r_html = None, r_promise = Pending, r_phase = Streaming 0\<rparr>]"
    by (simp add: e start(3)) (simp add: started_world_rest)
  show "controllers first_request = [False]"
    by (simp add: e start(4)) (simp add: started_world_rest)
  have a: "0 < length (requests (sendMessage ''one'' None started_world))" by simp
  have b: "r_phase (requests (sendMessage ''one'' None started_world) ! 0) = Sleeping"
    by (simp add: started_world_rest)
  have c: "transport (chat (sendMessage ''one'' None started_world)) = SSE
           \<or> \<not> isConnected (sendMessage ''one'' None started_world)"
    by (simp add: started_world_chat)
  have d: "sseUrl (chat (sendMessage ''one'' None started_world)) =
             Some ''https://chat.example/api?externalId=device-1''"
    by (simp add: started_world_chat)
  show "sock first_request = createSocketSession"
    unfolding first_request_def
    by (simp add: resume_streaming(4) [where valid_url = "\<lambda>u. True", OF a b c d] started_world_rest)
qed


lemma first_request_streams:
  "transport (chat first_request) = SSE \<or> \<not> isConnected first_request"
  "sseUrl (chat first_request) = Some ''https://chat.example/api?externalId=device-1''"
  "(\<lambda>u. True) ''https://chat.example/api?externalId=device-1''"
  by (simp_all add: first_request_facts started_world_chat)

lemma second_request_facts:
  "in_flight 1 second_request"
  "in_flight 0 second_request"
  "controllers second_request = [False, False]"
  "abortController (chat second_request) = Some 1"
proof -
  have len: "length (requests first_request) = 1" by (simp add: first_request_facts)
  note start = streaming_call_start [where valid_url = "\<lambda>u. True" and t = "''two''" and h = None,
      OF first_request_streams, unfolded len, folded second_request_def]
  show "in_flight 1 second_request"
    by (rule start(1))
  show "controllers second_request = [False, False]"
    by (simp add: start(4) first_request_facts)
  show "abortController (chat second_request) = Some 1"
    by (simp add: start(2) first_request_facts)
  show "in_flight 0 second_request"
    by (simp add: in_flight_def start(3) start(4) first_request_facts)
qed

text \<open>
  The claim C3 fails: the second call of \<open>sendMessage\<close> opens its stream while the
  first request is in flight, and afterwards both requests are in flight and neither
  abort signal has been triggered.
\<close>

theorem second_request_without_abort:
  "in_flight 0 first_request \<and> in_flight 0 second_request \<and> in_flight 1 second_request
   \<and> controllers second_request = [False, False]"
  using first_request_facts(1) second_request_facts by blast

text \<open>
  C3, amended.  When \<open>sendMessage\<close> opens a streaming request it creates a new abort
  controller and stores it in the session in place of the previous one; no existing abort
  signal is triggered, so a request that was in flight stays in flight beside the new
  one.  \<open>cleanup\<close> then aborts the controller of the latest request only, and the
  earlier request stays in flight even then.
\<close>

theorem new_request_leaves_previous_in_flight:
  assumes "transport (chat w) = SSE \<or> \<not> isConnected w" "sseUrl (chat w) = Some u" "valid_url u"
    and "r < length (requests w)" "r_phase (requests w ! r) = Streaming c"
    and "c < length (controllers w)" "\<not> controllers w ! c"
  shows "in_flight (length (requests w)) (sendMessage_resume valid_url (length (requests w)) (sendMessage t h w))
       \<and> in_flight r (sendMessage_resume valid_url (length (requests w)) (sendMessage t h w))
       \<and> controllers (sendMessage_resume valid_url (length (requests w)) (sendMessage t h w)) =
           controllers w @ [False]
       \<and> abortController (chat (sendMessage_resume valid_url (length (requests w)) (sendMessage t h w))) =
           Some (length (controllers w))
       \<and> controllers (cleanup (sendMessage_resume valid_url (length (requests w)) (sendMessage t h w))) =
           controllers w @ [True]
       \<and> in_flight r (cleanup (sendMessage_resume valid_url (length (requests w)) (sendMessage t h w)))"
proof -
  define w' where "w' = sendMessage_resume valid_url (length (requests w)) (sendMessage t h w)"
  note start = streaming_call_start [where valid_url = valid_url and t = t and h = h, OF assms(1) assms(2) assms(3)]
  have f: "in_flight (length (requests w)) w'"
    and ch: "abortController (chat w') = Some (length (controllers w))"
    and rq: "requests w' = requests w @ [\<lparr>r_text = t, r_html = h, r_promise = Pending,
                           r_phase = Streaming (length (controllers w))\<rparr>]"
    and ct: "controllers w' = controllers w @ [False]"
    unfolding w'_def by (simp_all add: start)
  have old: "in_flight r w'"
    using assms(4-7) by (simp add: in_flight_def rq ct nth_append)
  have cc: "controllers (cleanup w') = controllers w @ [True]"
    by (simp add: cleanup_controllers ch ct)
  have oc: "in_flight r (cleanup w')"
    using assms(4-7) by (simp add: in_flight_def cleanup_requests cc rq nth_append)
  show ?thesis
    unfolding w'_def [symmetric] using f old ct ch cc oc by simp
qed

theorem new_request_leaves_previous_in_flight_witness:
  "sseUrl (chat first_request) = Some ''https://chat.example/api?externalId=device-1''
   \<and> transport (chat first_request) = SSE
   \<and> r_phase (requests first_request ! 0) = Streaming 0
   \<and> controllers first_request = [False]
   \<and> in_flight 0 (sendMessage_resume (\<lambda>u. True) 1 (sendMessage ''two'' None first_request))
   \<and> controllers (sendMessage_resume (\<lambda>u. True) 1 (sendMessage ''two'' None first_request)) = [False, False]
   \<and> controllers (cleanup (sendMessage_resume (\<lambda>u. True) 1 (sendMessage ''two'' None first_request))) = [False, True]
   \<and> in_flight 0 (cleanup (sendMessage_resume (\<lambda>u. True) 1 (sendMessage ''two'' None first_request)))"
proof -
  have h: "0 < length (requests first_request)" "r_phase (requests first_request ! 0) = Streaming 0"
    "0 < length (controllers first_request)" "\<not> controllers first_request ! 0"
    by (simp_all add: first_request_facts)
  have l: "length (requests first_request) = 1" "controllers first_request = [False]"
    "transport (chat first_request) = SSE"
    by (simp_all add: first_request_facts started_world_chat)
  from new_request_leaves_previous_in_flight [where valid_url = "\<lambda>u. True" and t = "''two''" and h = None,
      OF first_request_streams h, unfolded l(1) l(2)]
  show ?thesis
    using first_request_streams(2) h(2) l(2) l(3) by simp
qed


lemma catch_block_chat:
  assumes "messages (chat w) \<noteq> []"
  shows "chat (catch_block err r w) =
    (chat w)\<lparr>messages := butlast (messages (chat w)) @
       [(last (messages (chat w)))\<lparr>m_loading := Some False,
          m_errorText := (if truthy_bool (m_done (last (messages (chat w)))) then None
                          else Some (or_else (Some err) errorMessage)),
          m_done := Some True\<rparr>]\<rparr>"
proof -
  obtain m ms where ms: "messages (chat w) = m # ms"
    using assms by (cases "messages (chat w)") auto
  have l: "(m # ms) ! (length (m # ms) - 1) = last (m # ms)"
    by (rule last_index) simp
  have u: "(m # ms)[length (m # ms) - 1 := y] = butlast (m # ms) @ [y]" for y
    by (rule update_last) simp
  show ?thesis
    unfolding catch_block_def
    apply (simp only: Let_def ms list.case l u)
    apply (simp only: ms [symmetric])
    apply simp
    done
qed

lemma catch_block_requests:
  assumes "messages (chat w) \<noteq> []"
  shows "requests (catch_block err r w) =
    map_at r (\<lambda>q. q\<lparr>r_phase := Finished\<rparr>)
      (map_at r (\<lambda>q. q\<lparr>r_promise := settle (r_promise q) (Rejected err)\<rparr>) (requests w))"
proof -
  obtain m ms where ms: "messages (chat w) = m # ms"
    using assms by (cases "messages (chat w)") auto
  show ?thesis
    unfolding catch_block_def
    apply (simp only: Let_def ms list.case)
    apply (simp only: ms [symmetric])
    apply simp
    done
qed

lemma error_event_chat:
  assumes "messages (chat w) \<noteq> []"
  shows "chat (error_event r w) =
    (chat w)\<lparr>messages := butlast (messages (chat w)) @
       [(last (messages (chat w)))\<lparr>m_loading := Some False, m_errorText := Some errorMessage\<rparr>]\<rparr>"
proof -
  obtain m ms where ms: "messages (chat w) = m # ms"
    using assms by (cases "messages (chat w)") auto
  have u: "(messages (chat w))[length (messages (chat w)) - 1 := y] = butlast (messages (chat w)) @ [y]" for y
    by (rule update_last) (rule assms)
  show ?thesis
    unfolding error_event_def
    apply (simp only: Let_def u)
    apply (simp add: ms)
    done
qed

lemma error_event_requests:
  "requests (error_event r w) =
     map_at r (\<lambda>q. q\<lparr>r_promise := settle (r_promise q) (Rejected errorMessage)\<rparr>) (requests w)"
  and error_event_controllers: "controllers (error_event r w) = controllers w"
  by (simp_all add: error_event_def Let_def)

lemma onmessage_error:
  "in_flight r w \<Longrightarrow> d_message d = None \<Longrightarrow> truthy_str (d_error d) \<Longrightarrow>
     onmessage valid_url r (data_event d) w = error_event r w"
  by (simp add: onmessage_def data_event_def)

lemma or_else_nonempty: "d \<noteq> [] \<Longrightarrow> or_else x d \<noteq> []"
  by (simp add: or_else_def split: option.split)

text \<open>
  C4 fails on the code.  The first call is answered by a backend error event, and the
  stream ends.  The promise is rejected and no message is removed, and the tail message
  has the \<open>errorText\<close> "Failed to connect to the system" and \<open>loading = false\<close>;
  but its \<open>done\<close> is not set.  On the same request a transport error, and a non-ok
  response at the opening of the stream, do set \<open>done = true\<close> on the tail, with a
  non-empty \<open>errorText\<close>.
\<close>

theorem backend_error_event_leaves_done_unset:
  "r_promise (requests backend_error ! 0) = Rejected ''Failed to connect to the system''
   \<and> length (messages (chat backend_error)) = length (messages (chat first_request))
   \<and> butlast (messages (chat backend_error)) = butlast (messages (chat first_request))
   \<and> m_errorText (last (messages (chat backend_error))) = Some ''Failed to connect to the system''
   \<and> m_loading (last (messages (chat backend_error))) = Some False
   \<and> m_done (last (messages (chat backend_error))) = None
   \<and> messages (chat (stream_error 0 ''network error'' first_request)) =
       [userMessage ''one'' None 1700000000000,
        loadingMessage\<lparr>m_loading := Some False, m_errorText := Some ''network error'', m_done := Some True\<rparr>]
   \<and> r_promise (requests (stream_error 0 ''network error'' first_request) ! 0) = Rejected ''network error''
   \<and> messages (chat (onopen 0 False first_request)) =
       [userMessage ''one'' None 1700000000000,
        loadingMessage\<lparr>m_loading := Some False, m_errorText := Some ''Failed to send message'',
          m_done := Some True\<rparr>]
   \<and> r_promise (requests (onopen 0 False first_request) ! 0) = Rejected ''Failed to send message''"
proof -
  have n: "messages (chat first_request) \<noteq> []" by (simp add: first_request_facts)
  have e: "d_message (no_data\<lparr>d_error := Some ''quota exceeded''\<rparr>) = None"
    "truthy_str (d_error (no_data\<lparr>d_error := Some ''quota exceeded''\<rparr>))"
    by (simp_all add: no_data_def truthy_str_def)
  define v where "v = error_event 0 first_request"
  have b: "backend_error = stream_close 0 v"
    by (simp add: backend_error_def v_def onmessage_error [OF first_request_facts(1) e])
  have cv: "chat (stream_close 0 v) = chat v"
    and rv: "r_promise (requests (stream_close 0 v) ! 0) = r_promise (requests v ! 0)"
    by (simp_all add: stream_close_def map_at_nth)
  have 1: "r_promise (requests backend_error ! 0) = Rejected ''Failed to connect to the system''"
    unfolding b rv unfolding v_def error_event_requests
    by (simp add: first_request_facts map_at_def settle_def errorMessage_def)
  have 2: "m_errorText (last (messages (chat backend_error))) = Some ''Failed to connect to the system''"
    "m_done (last (messages (chat backend_error))) = None"
    "m_loading (last (messages (chat backend_error))) = Some False"
    "length (messages (chat backend_error)) = length (messages (chat first_request))"
    "butlast (messages (chat backend_error)) = butlast (messages (chat first_request))"
    unfolding b cv unfolding v_def error_event_chat [OF n]
    by (simp_all add: first_request_facts errorMessage_def loadingMessage_def empty_object_def)
  have s: "stream_error 0 err first_request = catch_block err 0 first_request"
    "onopen 0 False first_request = catch_block ''Failed to send message'' 0 first_request" for err
    by (simp_all add: stream_error_def onopen_def first_request_facts(1))
  have 3: "messages (chat (catch_block err 0 first_request)) =
       [userMessage ''one'' None 1700000000000,
        loadingMessage\<lparr>m_loading := Some False, m_errorText := Some (or_else (Some err) errorMessage),
          m_done := Some True\<rparr>]" for err
    unfolding catch_block_chat [OF n]
    by (simp add: first_request_facts loadingMessage_def empty_object_def truthy_bool_def)
  have 4: "r_promise (requests (catch_block err 0 first_request) ! 0) = Rejected err" for err
    unfolding catch_block_requests [OF n]
    by (simp add: first_request_facts map_at_def settle_def)
  show ?thesis
    unfolding s using 1 2 by (simp add: 3 4 or_else_def)
qed

section \<open>The scenarios, evaluated\<close>

lemmas chat_defs = started_world_def startChat_def initialize_def initial_world_def createSession_def
      example_credentials_def truthy_str_def getExternalId_def first_request_def sendMessage_def
      sendMessage_resume_def addMessage_def call_cb_def no_chat_callbacks_def set_phase_def map_at_def
      isConnected_def createSocketSession_def Let_def or_else_def

lemma first_request_world:
  "first_request =
    \<lparr>chat = \<lparr>credentials = Some example_credentials, authenticated = True, configData = None,
        sessionId = None, requestId = None,
        sseUrl = Some ''https://chat.example/api?externalId=device-1'', abortController = Some 0,
        lastStreamId = None, messages = [userMessage ''one'' None 1700000000000, loadingMessage],
        callbacks = no_chat_callbacks, transport = SSE\<rparr>,
     sock = createSocketSession, controllers = [False],
     requests = [\<lparr>r_text = ''one'', r_html = None, r_promise = Pending, r_phase = Streaming 0\<rparr>],
     websockets = [], connects = [], acks = [], timers = [], next_timer = 0,
     clock = 1700000000000, entropy = (\<lambda>k i. 0), draws = 0, notifications = []\<rparr>"
  by (simp add: chat_defs)


lemmas socket_defs = connectSocket_def setTimeout_def setInterval_def clearTimeout_def ws_onopen_def
  set_readyState_def handleSocketConnected_def handleSocketDisconnected_def setTransport_def send_def
  ping_def fresh_uuid_def ws_send_def startPingInterval_def stopPingInterval_def settle_connect_def
  settle_def SOCKET_TIMEOUT_def PING_INTERVAL_def Let_def createSocketSession_def

lemma upgraded_world:
  "upgraded =
    \<lparr>chat = chat first_request,
     sock = \<lparr>socket = Some 0, previouslyConnected = False, socketDisconnected = False,
             pingInterval = None, socketDisconnectedTimeout = None, socketConnectionTimeout = Some 0\<rparr>,
     controllers = [False],
     requests = [\<lparr>r_text = ''one'', r_html = None, r_promise = Pending, r_phase = Streaming 0\<rparr>],
     websockets = [\<lparr>readyState = CONNECTING, sent = [], listeners = [], ws_promise = 0\<rparr>],
     connects = [Pending], acks = [],
     timers = [(0, \<lparr>due = 1700000005000, period = None, action = ConnectTimeout 0\<rparr>)],
     next_timer = 1,
     clock = 1700000000000, entropy = (\<lambda>k i. 0), draws = 0, notifications = []\<rparr>"
  unfolding upgraded_def first_request_world
  by (simp add: onmessage_def upgrade_event_def in_flight_def socket_defs example_credentials_def)

lemma socket_opened_world:
  "socket_opened =
    \<lparr>chat = (chat first_request)\<lparr>transport := SOCKET\<rparr>,
     sock = \<lparr>socket = Some 0, previouslyConnected = True, socketDisconnected = False,
             pingInterval = Some 1, socketDisconnectedTimeout = None, socketConnectionTimeout = Some 0\<rparr>,
     controllers = [False],
     requests = [\<lparr>r_text = ''one'', r_html = None, r_promise = Pending, r_phase = Streaming 0\<rparr>],
     websockets = [\<lparr>readyState = OPEN,
                    sent = [ping\<lparr>f_eventId := Some (uuidv7 1700000000000 (\<lambda>i. 0))\<rparr>],
                    listeners = [], ws_promise = 0\<rparr>],
     connects = [Resolved True], acks = [],
     timers = [(1, \<lparr>due = 1700000010000, period = Some 10000, action = PingTick\<rparr>)],
     next_timer = 2,
     clock = 1700000000000, entropy = (\<lambda>k i. 0), draws = 1, notifications = []\<rparr>"
  unfolding socket_opened_def upgraded_world
  by (simp add: first_request_world socket_defs map_at_def call_cb_def no_chat_callbacks_def truthy_str_def)


section \<open>The chat socket\<close>

lemma handleSocketDisconnected_proj [simp]:
  "chat (handleSocketDisconnected w) = (chat w)\<lparr>transport := SSE\<rparr>"
  "sock (handleSocketDisconnected w) = (sock w)\<lparr>socketDisconnected := True\<rparr>"
  "websockets (handleSocketDisconnected w) = websockets w"
  "timers (handleSocketDisconnected w) = timers w"
  "clock (handleSocketDisconnected w) = clock w"
  by (simp_all add: handleSocketDisconnected_def)

lemma handleSocketConnected_proj [simp]:
  "chat (handleSocketConnected w) = (chat w)\<lparr>transport := SOCKET\<rparr>"
  "sock (handleSocketConnected w) = (sock w)\<lparr>socketDisconnected := False\<rparr>"
  "websockets (handleSocketConnected w) = websockets w"
  "timers (handleSocketConnected w) = timers w"
  "clock (handleSocketConnected w) = clock w"
  by (simp_all add: handleSocketConnected_def)

lemma send_proj [simp]:
  "chat (snd (send f w)) = chat w" "sock (snd (send f w)) = sock w"
  "timers (snd (send f w)) = timers w" "clock (snd (send f w)) = clock w"
  "length (websockets (snd (send f w))) = length (websockets w)"
  by (simp_all add: send_def ws_send_def fresh_uuid_def Let_def
      split: option.split ready_state.split prod.split)

lemma send_readyState [simp]:
  "readyState (websockets (snd (send f w)) ! k) = readyState (websockets w ! k)"
  by (simp add: send_def ws_send_def fresh_uuid_def Let_def map_at_nth
      split: option.split ready_state.split prod.split)

lemma startPingInterval_sock:
  "previouslyConnected (sock (startPingInterval w)) = previouslyConnected (sock w)"
  by (simp add: startPingInterval_def setInterval_def Let_def split: prod.split)

lemma settle_connect_proj [simp]:
  "chat (settle_connect p v w) = chat w" "sock (settle_connect p v w) = sock w"
  "websockets (settle_connect p v w) = websockets w" "timers (settle_connect p v w) = timers w"
  "clock (settle_connect p v w) = clock w"
  by (simp_all add: settle_connect_def)

lemma ws_onopen_previouslyConnected: "previouslyConnected (sock (ws_onopen k w))"
  by (cases "send ping (handleSocketConnected
        ((set_readyState k OPEN w)\<lparr>sock := (sock (set_readyState k OPEN w))\<lparr>previouslyConnected := True\<rparr>\<rparr>))")
     (use send_proj(2) [of ping "handleSocketConnected
        ((set_readyState k OPEN w)\<lparr>sock := (sock (set_readyState k OPEN w))\<lparr>previouslyConnected := True\<rparr>\<rparr>)"]
      in \<open>simp add: ws_onopen_def Let_def startPingInterval_sock\<close>)

lemma connectSocket_previouslyConnected:
  "previouslyConnected (sock (connectSocket valid_url w)) = previouslyConnected (sock w)"
  by (simp add: connectSocket_def Let_def setTimeout_def split: option.split prod.split)

lemma ws_onclose_after_connection:
  assumes "socket (sock w) = Some k" "previouslyConnected (sock w)"
  shows "chat (ws_onclose k 1006 w) = (chat w)\<lparr>transport := SSE\<rparr>"
  using assms by (simp add: ws_onclose_def Let_def)

lemma ws_onclose_before_connection:
  assumes "socket (sock w) = Some k" "\<not> previouslyConnected (sock w)"
  shows "chat (ws_onclose k 1006 w) = (chat w)\<lparr>messages := messages (chat w) @ [connection_error_message w]\<rparr>"
  using assms by (simp add: ws_onclose_def Let_def connection_error_message_def)


lemma handleSocketEvent_keeps_connection_record:
  "f_type ev \<noteq> ''end'' \<Longrightarrow>
     previouslyConnected (sock (handleSocketEvent ev w)) = previouslyConnected (sock w)
     \<and> socket (sock (handleSocketEvent ev w)) = socket (sock w)"
  by (simp add: handleSocketEvent_def Let_def setTimeout_def toggleTypingStatus_def split: prod.split)

lemma socket_ended_world:
  "socket_ended =
     socket_opened\<lparr>
       chat := (chat first_request)\<lparr>transport := SSE\<rparr>,
       sock := createSocketSession,
       websockets := [\<lparr>readyState = CLOSING,
                       sent = [ping\<lparr>f_eventId := Some (uuidv7 1700000000000 (\<lambda>i. 0))\<rparr>],
                       listeners = [], ws_promise = 0\<rparr>],
       timers := []\<rparr>"
  unfolding socket_ended_def socket_opened_world
  by (simp add: ws_onmessage_def handleSocketEvent_def end_frame_def disconnectSocket_def ws_close_def
      clearAllTimeouts_def socket_defs map_at_def call_cb_def no_chat_callbacks_def first_request_world)

lemma upgraded_again_world:
  "upgraded_again =
     socket_ended\<lparr>
       sock := \<lparr>socket = Some 1, previouslyConnected = False, socketDisconnected = False,
                pingInterval = None, socketDisconnectedTimeout = None, socketConnectionTimeout = Some 2\<rparr>,
       websockets := [\<lparr>readyState = CLOSING,
                       sent = [ping\<lparr>f_eventId := Some (uuidv7 1700000000000 (\<lambda>i. 0))\<rparr>],
                       listeners = [], ws_promise = 0\<rparr>,
                      \<lparr>readyState = CONNECTING, sent = [], listeners = [], ws_promise = 1\<rparr>],
       connects := [Resolved True, Pending],
       timers := [(2, \<lparr>due = 1700000005000, period = None, action = ConnectTimeout 1\<rparr>)],
       next_timer := 3\<rparr>"
  unfolding upgraded_again_def socket_ended_world socket_opened_world
  by (simp add: onmessage_def upgrade_event_def in_flight_def socket_defs first_request_world
      example_credentials_def)

lemma disconnectSocket_connection_record:
  "\<not> previouslyConnected (sock (disconnectSocket w))"
  "socket (sock (disconnectSocket w)) = None"
  by (simp_all add: disconnectSocket_def Let_def clearAllTimeouts_def stopPingInterval_def
      clearTimeout_def setTransport_def ws_close_def split: option.split)

text \<open>
  C6 as it is written does not hold.  "After at least one successful connection
  was achieved" and "before any successful connection was ever achieved" speak of the
  history of the chat session; the code consults the flag \<open>previouslyConnected\<close>, which
  \<open>disconnect()\<close> of socket.js resets, and an inbound \<open>end\<close> frame calls \<open>disconnect()\<close>.
  In the run below the chat socket opens (a successful connection: the flag is set and
  the transport is \<open>socket\<close>), the backend sends an \<open>end\<close> frame, the request that is
  still in flight receives \<open>upgrade_to_websocket\<close> again and a second socket is created,
  and that socket closes with code 1006.  The message list of the same chat session
  receives the terminal error message, although a successful connection had been
  achieved before.
\<close>

theorem abnormal_closure_after_end_frame_appends_error:
  "previouslyConnected (sock socket_opened)
   \<and> transport (chat socket_opened) = SOCKET
   \<and> socket (sock socket_ended) = None
   \<and> in_flight 0 upgraded_again
   \<and> socket (sock upgraded_again) = Some 1
   \<and> \<not> previouslyConnected (sock upgraded_again)
   \<and> messages (chat upgraded_again) = messages (chat socket_opened)
   \<and> messages (chat (ws_onclose 1 1006 upgraded_again)) =
        messages (chat socket_opened) @
          [empty_object\<lparr>m_errorText := Some ''Unable to establish connection'', m_done := Some True,
             m_timestamp := Some (Instant 1700000000000)\<rparr>]
   \<and> transport (chat (ws_onclose 1 1006 upgraded_again)) = SSE"
proof -
  have a: "socket (sock upgraded_again) = Some 1" "\<not> previouslyConnected (sock upgraded_again)"
    "clock upgraded_again = 1700000000000"
    "messages (chat upgraded_again) = messages (chat socket_opened)"
    "transport (chat upgraded_again) = SSE"
    "in_flight 0 upgraded_again"
    "socket (sock socket_ended) = None"
    by (simp_all add: upgraded_again_world socket_ended_world socket_opened_world in_flight_def
        createSocketSession_def)
  have b: "previouslyConnected (sock socket_opened)" "transport (chat socket_opened) = SOCKET"
    by (simp_all add: socket_opened_world)
  note c = ws_onclose_before_connection [OF a(1) a(2)]
  show ?thesis
    unfolding c using a b by (simp add: connection_error_message_def)
qed

text \<open>
  C6, amended.  The socket session records a successful connection in
  \<open>previouslyConnected\<close>: the \<open>onopen\<close> handler sets it, \<open>connectSocket\<close> and the inbound
  frames other than \<open>end\<close> leave it as it is, it is false in a new socket session, and
  \<open>disconnect()\<close> of socket.js, which is also what an \<open>end\<close> frame runs, clears it and
  forgets the socket.  When the current chat socket closes with code 1006 and the flag
  is set, that is, a connection has been achieved since the socket session was created
  or last disconnected, the transport becomes \<open>sse\<close> and the message list is unchanged;
  when the flag is not set, one message is appended, with the \<open>errorText\<close>
  "Unable to establish connection" and \<open>done = true\<close>.
\<close>

theorem abnormal_closure_of_chat_socket:
  assumes "socket (sock w) = Some k"
  shows "(previouslyConnected (sock w) \<longrightarrow>
            chat (ws_onclose k 1006 w) = (chat w)\<lparr>transport := SSE\<rparr>)
       \<and> (\<not> previouslyConnected (sock w) \<longrightarrow>
            chat (ws_onclose k 1006 w) =
              (chat w)\<lparr>messages := messages (chat w) @ [connection_error_message w]\<rparr>)
       \<and> m_errorText (connection_error_message w) = Some ''Unable to establish connection''
       \<and> m_done (connection_error_message w) = Some True
       \<and> previouslyConnected (sock (ws_onopen k w))
       \<and> previouslyConnected (sock (connectSocket valid_url w)) = previouslyConnected (sock w)
       \<and> (f_type ev \<noteq> ''end'' \<longrightarrow>
            previouslyConnected (sock (handleSocketEvent ev w)) = previouslyConnected (sock w))
       \<and> (f_type ev = ''end'' \<longrightarrow> handleSocketEvent ev w = disconnectSocket w)
       \<and> \<not> previouslyConnected (sock (disconnectSocket w))
       \<and> socket (sock (disconnectSocket w)) = None
       \<and> \<not> previouslyConnected createSocketSession"
  using ws_onclose_after_connection [OF assms] ws_onclose_before_connection [OF assms]
    handleSocketEvent_keeps_connection_record [of ev w]
    disconnectSocket_connection_record [of w]
  by (simp add: connection_error_message_def ws_onopen_previouslyConnected
      connectSocket_previouslyConnected createSocketSession_def handleSocketEvent_def)

theorem abnormal_closure_of_chat_socket_witness:
  "socket (sock upgraded) = Some 0 \<and> \<not> previouslyConnected (sock upgraded)
   \<and> messages (chat (ws_onclose 0 1006 upgraded)) =
        messages (chat upgraded) @
          [empty_object\<lparr>m_errorText := Some ''Unable to establish connection'', m_done := Some True,
             m_timestamp := Some (Instant 1700000000000)\<rparr>]
   \<and> socket (sock socket_opened) = Some 0 \<and> previouslyConnected (sock socket_opened)
   \<and> transport (chat socket_opened) = SOCKET
   \<and> transport (chat (ws_onclose 0 1006 socket_opened)) = SSE
   \<and> messages (chat (ws_onclose 0 1006 socket_opened)) = messages (chat socket_opened)
   \<and> f_type end_frame = ''end''
   \<and> handleSocketEvent end_frame socket_opened = disconnectSocket socket_opened
   \<and> \<not> previouslyConnected (sock (handleSocketEvent end_frame socket_opened))"
proof -
  have a: "socket (sock upgraded) = Some 0" "\<not> previouslyConnected (sock upgraded)"
    "clock upgraded = 1700000000000"
    by (simp_all add: upgraded_world)
  have b: "socket (sock socket_opened) = Some 0" "previouslyConnected (sock socket_opened)"
    "transport (chat socket_opened) = SOCKET"
    by (simp_all add: socket_opened_world)
  have e: "f_type end_frame = ''end''"
    by (simp add: end_frame_def)
  from abnormal_closure_of_chat_socket [OF a(1)]
    abnormal_closure_of_chat_socket [OF b(1), where ev = end_frame]
  show ?thesis
    using a b e by (simp add: connection_error_message_def)
qed

section \<open>Timers\<close>

lemma tick_idle:
  assumes "list_all (\<lambda>e. Suc (clock w) < due (snd e)) (timers w)"
  shows "tick w = w\<lparr>clock := Suc (clock w)\<rparr>"
proof -
  have "filter (\<lambda>e. due (snd e) \<le> Suc (clock w)) (timers w) = []"
    using assms by (induction "timers w") (auto simp add: list_all_iff filter_empty_conv)
  then show ?thesis by (simp add: tick_def Let_def)
qed

lemma advance_idle:
  "list_all (\<lambda>e. clock w + n < due (snd e)) (timers w) \<Longrightarrow> advance n w = w\<lparr>clock := clock w + n\<rparr>"
proof (induction n arbitrary: w)
  case 0
  then show ?case by simp
next
  case (Suc n)
  have a: "list_all (\<lambda>e. Suc (clock w) < due (snd e)) (timers w)"
    using Suc.prems by (auto simp add: list_all_iff)
  have b: "list_all (\<lambda>e. clock (w\<lparr>clock := Suc (clock w)\<rparr>) + n < due (snd e)) (timers (w\<lparr>clock := Suc (clock w)\<rparr>))"
    using Suc.prems by (auto simp add: list_all_iff)
  show ?case
    by (simp add: tick_idle [OF a] Suc.IH [OF b])
qed

lemma advance_add: "advance (m + n) w = advance n (advance m w)"
  by (induction m arbitrary: w) simp_all


section \<open>The heartbeat of the chat socket\<close>

lemma fire_timer_live:
  assumes "live_with_pings_only k w"
  shows "live_with_pings_only k (fire_timer i w)"
proof (cases "map_of (timers w) i")
  case None
  then show ?thesis using assms by (simp add: fire_timer_def)
next
  case (Some t)
  then have "(i, t) \<in> set (timers w)" by (rule map_of_SomeD)
  then have act: "action t = PingTick"
    using assms by (auto simp add: live_with_pings_only_def list_all_iff)
  define w1 where "w1 = (case period t of
                  None \<Rightarrow> clearTimeout (Some i) w
                | Some d \<Rightarrow> w\<lparr>timers := map (\<lambda>e. if fst e = i then (i, (snd e)\<lparr>due := due (snd e) + d\<rparr>) else e) (timers w)\<rparr>)"
  have l1: "live_with_pings_only k w1"
    using assms unfolding w1_def
    by (cases "period t") (auto simp add: live_with_pings_only_def clearTimeout_def list_all_iff)
  then have o: "socket_open w1"
    by (simp add: live_with_pings_only_def socket_open_def)
  have "live_with_pings_only k (snd (send ping w1))"
    using l1 by (simp add: live_with_pings_only_def)
  then have "live_with_pings_only k (run_action PingTick w1)"
    by (simp add: run_action_def o)
  then show ?thesis
    using assms by (simp add: fire_timer_def Some act w1_def [symmetric])
qed

lemma fire_timers_live:
  "live_with_pings_only k w \<Longrightarrow> live_with_pings_only k (foldl (\<lambda>v i. fire_timer i v) w ids)"
  by (induction ids arbitrary: w) (simp_all add: fire_timer_live)

lemma tick_live: "live_with_pings_only k w \<Longrightarrow> live_with_pings_only k (tick w)"
proof -
  assume a: "live_with_pings_only k w"
  then have "live_with_pings_only k (w\<lparr>clock := Suc (clock w)\<rparr>)"
    by (simp add: live_with_pings_only_def)
  then show ?thesis
    unfolding tick_def Let_def by (rule fire_timers_live)
qed

lemma advance_live: "live_with_pings_only k w \<Longrightarrow> live_with_pings_only k (advance n w)"
  by (induction n arbitrary: w) (simp_all add: tick_live)

lemma socket_opened_live: "live_with_pings_only 0 socket_opened"
  by (simp add: live_with_pings_only_def socket_opened_world)

lemmas timer_defs = tick_def fire_timer_def run_action_def socket_open_def handleSocketEvent_def
  ws_onmessage_def sendWithAck_def onMessage_def settle_ack_def toggleTypingStatus_def

lemma pong_received_world:
  "pong_received =
     socket_opened\<lparr>
       sock := (sock socket_opened)\<lparr>socketDisconnectedTimeout := Some 2\<rparr>,
       timers := [(1, \<lparr>due = 1700000010000, period = Some 10000, action = PingTick\<rparr>),
                  (2, \<lparr>due = 1700000011000, period = None, action = PingTimeout\<rparr>)],
       next_timer := 3\<rparr>"
  unfolding pong_received_def socket_opened_world
  by (simp add: timer_defs socket_defs pong_frame_def)

text \<open>
  After a pong the watchdog is set: 10999 ms of silence leave the transport on
  \<open>socket\<close>, and at 11000 ms the channel is marked disconnected and the transport is
  \<open>sse\<close>.
\<close>

lemma silence_after_pong:
  "transport (chat (advance 10999 pong_received)) = SOCKET
   \<and> transport (chat (advance 11000 pong_received)) = SSE
   \<and> socketDisconnected (sock (advance 11000 pong_received))"
proof -
  define p1 where "p1 = pong_received\<lparr>clock := 1700000009999\<rparr>"
  define p2 where "p2 = tick p1"
  define p3 where "p3 = p2\<lparr>clock := 1700000010999\<rparr>"
  have "list_all (\<lambda>e. clock pong_received + 9999 < due (snd e)) (timers pong_received)"
    by (simp add: pong_received_world socket_opened_world)
  from advance_idle [OF this] have e1: "advance 9999 pong_received = p1"
    by (simp add: p1_def pong_received_world socket_opened_world)
  have w2: "p2 = pong_received\<lparr>clock := 1700000010000,
      websockets := [\<lparr>readyState = OPEN,
                      sent = [ping\<lparr>f_eventId := Some (uuidv7 1700000000000 (\<lambda>i. 0))\<rparr>,
                              ping\<lparr>f_eventId := Some (uuidv7 1700000010000 (\<lambda>i. 0))\<rparr>],
                      listeners = [], ws_promise = 0\<rparr>],
      draws := 2,
      timers := [(1, \<lparr>due = 1700000020000, period = Some 10000, action = PingTick\<rparr>),
                 (2, \<lparr>due = 1700000011000, period = None, action = PingTimeout\<rparr>)]\<rparr>"
    unfolding p2_def p1_def pong_received_world socket_opened_world
    by (simp add: timer_defs socket_defs map_at_def truthy_str_def)
  have "list_all (\<lambda>e. clock p2 + 999 < due (snd e)) (timers p2)"
    by (simp add: w2 pong_received_world socket_opened_world)
  from advance_idle [OF this] have e3: "advance 999 p2 = p3"
    by (simp add: p3_def w2 pong_received_world socket_opened_world)
  have w4: "transport (chat (tick p3)) = SSE" "socketDisconnected (sock (tick p3))"
    unfolding p3_def w2 pong_received_world socket_opened_world
    by (simp_all add: timer_defs socket_defs map_at_def call_cb_def no_chat_callbacks_def
        first_request_world)
  have t3: "transport (chat p3) = SOCKET"
    by (simp add: p3_def w2 pong_received_world socket_opened_world)
  have a: "advance 10999 pong_received = p3"
  proof -
    have "advance 10999 pong_received = advance (9999 + (1 + 999)) pong_received" by simp
    also have "\<dots> = advance 999 (tick (advance 9999 pong_received))"
      unfolding advance_add by simp
    finally show ?thesis by (simp add: e1 p2_def [symmetric] e3)
  qed
  have b: "advance 11000 pong_received = tick p3"
  proof -
    have "advance 11000 pong_received = advance (10999 + 1) pong_received" by simp
    also have "\<dots> = tick (advance 10999 pong_received)"
      unfolding advance_add by simp
    finally show ?thesis by (simp add: a)
  qed
  show ?thesis by (simp add: a b t3 w4)
qed

text \<open>
  C5 fails on the code.  The chat socket has opened and no pong arrives: however many
  milliseconds \<open>n\<close> pass, the transport is still \<open>socket\<close>, the channel is not
  marked disconnected and \<open>isConnected\<close> holds, so the next \<open>sendMessage\<close> still
  goes to the socket.  The watchdog is set by the pong handler only: once a pong has
  arrived, 11000 ms without another one do bring the transport back to \<open>sse\<close>.
\<close>

theorem no_pong_after_open_is_never_detected:
  "transport (chat (advance n socket_opened)) = SOCKET
   \<and> \<not> socketDisconnected (sock (advance n socket_opened))
   \<and> isConnected (advance n socket_opened)
   \<and> socketDisconnectedTimeout (sock socket_opened) = None
   \<and> map (\<lambda>e. action (snd e)) (timers socket_opened) = [PingTick]
   \<and> transport (chat (advance 10999 pong_received)) = SOCKET
   \<and> transport (chat (advance 11000 pong_received)) = SSE"
proof -
  have "live_with_pings_only 0 (advance n socket_opened)"
    by (rule advance_live [OF socket_opened_live])
  then show ?thesis
    using silence_after_pong
    by (simp add: live_with_pings_only_def isConnected_def) (simp add: socket_opened_world)
qed


lemma ack_request_world:
  "ack_request =
     socket_opened\<lparr>
       websockets := [\<lparr>readyState = OPEN,
                       sent = [ping\<lparr>f_eventId := Some (uuidv7 1700000000000 (\<lambda>i. 0))\<rparr>,
                               \<lparr>f_type = ''message'', f_eventId = Some ''e1'', f_data = None, f_error = None\<rparr>],
                       listeners = [\<lparr>l_eventId = ''e1'', l_promise = 0, l_timeout = 2\<rparr>],
                       ws_promise = 0\<rparr>],
       acks := [Pending],
       timers := [(1, \<lparr>due = 1700000010000, period = Some 10000, action = PingTick\<rparr>),
                  (2, \<lparr>due = 1700000005000, period = None, action = AutoReject 0\<rparr>)],
       next_timer := 3\<rparr>"
  unfolding ack_request_def socket_opened_world
  by (simp add: timer_defs socket_defs map_at_def)

lemma ack_request_waits: "advance 4999 ack_request = ack_request\<lparr>clock := 1700000004999\<rparr>"
proof -
  have "list_all (\<lambda>e. clock ack_request + 4999 < due (snd e)) (timers ack_request)"
    by (simp add: ack_request_world socket_opened_world)
  from advance_idle [OF this] show ?thesis
    by (simp add: ack_request_world socket_opened_world)
qed

lemma ack_request_times_out:
  "advance 5000 ack_request =
     ack_request\<lparr>clock := 1700000005000, acks := [Rejected ''Timeout''],
       timers := [(1, \<lparr>due = 1700000010000, period = Some 10000, action = PingTick\<rparr>)]\<rparr>"
proof -
  have "advance 5000 ack_request = advance (4999 + 1) ack_request" by simp
  also have "\<dots> = tick (ack_request\<lparr>clock := 1700000004999\<rparr>)"
    unfolding advance_add ack_request_waits by simp
  also have "\<dots> = ack_request\<lparr>clock := 1700000005000, acks := [Rejected ''Timeout''],
       timers := [(1, \<lparr>due = 1700000010000, period = Some 10000, action = PingTick\<rparr>)]\<rparr>"
    unfolding ack_request_world socket_opened_world
    by (simp add: timer_defs socket_defs map_at_def)
  finally show ?thesis .
qed

text \<open>
  C7 fails on the code.  A request sent with \<open>sendWithAck\<close> gets no response for
  5000 ms: the promise is then rejected with "Timeout", but the listener registered on the
  socket is still there.  The response that arrives afterwards leaves the promise as it
  is; it is the listener, which runs on it, that removes itself then.
\<close>

theorem sendWithAck_timeout_keeps_listener:
  "acks ack_request = [Pending]
   \<and> acks (advance 4999 ack_request) = [Pending]
   \<and> acks (advance 5000 ack_request) = [Rejected ''Timeout'']
   \<and> listeners (websockets (advance 5000 ack_request) ! 0) =
       [\<lparr>l_eventId = ''e1'', l_promise = 0, l_timeout = 2\<rparr>]
   \<and> acks (ws_onmessage 0 ack_response (advance 5000 ack_request)) = [Rejected ''Timeout'']
   \<and> listeners (websockets (ws_onmessage 0 ack_response (advance 5000 ack_request)) ! 0) = []"
proof -
  have a: "acks ack_request = [Pending]" "acks (advance 4999 ack_request) = [Pending]"
    unfolding ack_request_waits by (simp_all add: ack_request_world)
  have b: "acks (advance 5000 ack_request) = [Rejected ''Timeout'']"
    "listeners (websockets (advance 5000 ack_request) ! 0) =
       [\<lparr>l_eventId = ''e1'', l_promise = 0, l_timeout = 2\<rparr>]"
    unfolding ack_request_times_out by (simp_all add: ack_request_world)
  have c: "acks (ws_onmessage 0 ack_response (advance 5000 ack_request)) = [Rejected ''Timeout'']"
    "listeners (websockets (ws_onmessage 0 ack_response (advance 5000 ack_request)) ! 0) = []"
    unfolding ack_request_times_out unfolding ack_request_world socket_opened_world
    by (simp_all add: timer_defs socket_defs map_at_def ack_response_def truthy_str_def)
  show ?thesis using a b c by simp
qed

section \<open>The call controller\<close>

lemmas call_defs = call_started_def offer_sent_def startCall_userMedia_def startCall_def setCallCallbacks_def
  initial_call_world_def createCallSession_def setCallStatus_def setCallError_def effect_def
  call_connectSocket_def example_credentials_def call_onopen_def call_startPingInterval_def
  call_stopPingInterval_def startCall_createOffer_def startCall_offer_def startCall_localDescription_def
  sendEvent_def frame_of_type_def map_at_def Let_def

lemma call_started_world:
  "call_started =
    \<lparr>call = \<lparr>call_sessionId = None, call_socket = Some 0, peerConnection = Some 0,
              localStream = Some 0, remoteStream = None, remoteAudio = None, isMuted = False,
              callStatus = ''connecting'', call_pingInterval = None, pingCount = 0,
              lastPongTime = None,
              call_callbacks = \<lparr>onCallStatus = Some 0, onCallError = Some 1\<rparr>\<rparr>,
     chat_credentials = Some example_credentials, streams = [[0]],
     call_sockets = [\<lparr>cs_readyState = CONNECTING, cs_sent = []\<rparr>],
     peers = 1, audios = 0, intervals = 0, awaiting = AwaitSocket 0, call_clock = 0,
     effects = [StatusCallback 0 ''connecting'', ErrorCallback 1 None]\<rparr>"
  by (simp add: call_defs)

lemma offer_sent_world:
  "offer_sent =
    \<lparr>call = \<lparr>call_sessionId = None, call_socket = Some 0, peerConnection = Some 0,
              localStream = Some 0, remoteStream = None, remoteAudio = None, isMuted = False,
              callStatus = ''connecting'', call_pingInterval = Some 0, pingCount = 0,
              lastPongTime = None,
              call_callbacks = \<lparr>onCallStatus = Some 0, onCallError = Some 1\<rparr>\<rparr>,
     chat_credentials = Some example_credentials, streams = [[0]],
     call_sockets = [\<lparr>cs_readyState = OPEN,
                      cs_sent = [\<lparr>cf_type = ''offer'', cf_sdp = Some ''v=0'', cf_timestamp = None,
                                  cf_count = None\<rparr>]\<rparr>],
     peers = 1, audios = 0, intervals = 1, awaiting = Idle, call_clock = 0,
     effects = [StatusCallback 0 ''connecting'', ErrorCallback 1 None]\<rparr>"
  unfolding offer_sent_def call_started_world
  by (simp add: call_defs)


lemma setCallStatus_proj [simp]:
  "call (setCallStatus st w) = (call w)\<lparr>callStatus := st\<rparr>"
  "effects (setCallStatus st w) =
     effects w @ (case onCallStatus (call_callbacks (call w)) of None \<Rightarrow> []
                  | Some h \<Rightarrow> [StatusCallback h st])"
  "streams (setCallStatus st w) = streams w" "call_sockets (setCallStatus st w) = call_sockets w"
  "awaiting (setCallStatus st w) = awaiting w"
  by (simp_all add: setCallStatus_def Let_def split: option.split)

lemma setCallError_proj [simp]:
  "call (setCallError e w) = call w"
  "effects (setCallError e w) =
     effects w @ (case onCallError (call_callbacks (call w)) of None \<Rightarrow> []
                  | Some h \<Rightarrow> [ErrorCallback h e])"
  "streams (setCallError e w) = streams w" "call_sockets (setCallError e w) = call_sockets w"
  "awaiting (setCallError e w) = awaiting w"
  by (simp_all add: setCallError_def split: option.split)

lemma call_cleanup_effects:
  "effects (call_cleanup w) =
     effects w
     @ (case peerConnection (call w) of None \<Rightarrow> [] | Some p \<Rightarrow> [PeerClosed p])
     @ (case localStream (call w) of None \<Rightarrow> [] | Some s \<Rightarrow> map TrackStopped (streams w ! s))
     @ (case remoteAudio (call w) of None \<Rightarrow> [] | Some a \<Rightarrow> [AudioRemoved a])
     @ (case call_socket (call w) of None \<Rightarrow> [] | Some k \<Rightarrow> [SocketClosed k])
     @ (case call_pingInterval (call w) of None \<Rightarrow> [] | Some i \<Rightarrow> [IntervalCleared i])"
proof -
  define w1 where "w1 = (case peerConnection (call w) of None \<Rightarrow> w
               | Some p \<Rightarrow> (let v = effect (PeerClosed p) w
                            in v\<lparr>call := (call v)\<lparr>peerConnection := None\<rparr>\<rparr>))"
  define w2 where "w2 = (case localStream (call w1) of None \<Rightarrow> w1
               | Some s \<Rightarrow> (let v = stop_tracks (streams w1 ! s) w1
                            in v\<lparr>call := (call v)\<lparr>localStream := None\<rparr>\<rparr>))"
  define w3 where "w3 = (case remoteStream (call w2) of None \<Rightarrow> w2
               | Some s \<Rightarrow> w2\<lparr>call := (call w2)\<lparr>remoteStream := None\<rparr>\<rparr>)"
  define w4 where "w4 = (case remoteAudio (call w3) of None \<Rightarrow> w3
               | Some a \<Rightarrow> (let v = effect (AudioRemoved a) w3
                            in v\<lparr>call := (call v)\<lparr>remoteAudio := None\<rparr>\<rparr>))"
  define w5 where "w5 = (case call_socket (call w4) of None \<Rightarrow> w4
               | Some k \<Rightarrow> (let v = close_call_socket k w4
                            in v\<lparr>call := (call v)\<lparr>call_socket := None\<rparr>\<rparr>))"
  have 1: "effects w1 = effects w @ (case peerConnection (call w) of None \<Rightarrow> [] | Some p \<Rightarrow> [PeerClosed p])"
    "call w1 = (call w)\<lparr>peerConnection := None\<rparr>" "streams w1 = streams w"
    by (simp_all add: w1_def Let_def split: option.split)
  have 2: "effects w2 = effects w1 @ (case localStream (call w) of None \<Rightarrow> []
                                       | Some s \<Rightarrow> map TrackStopped (streams w ! s))"
    "call w2 = (call w1)\<lparr>localStream := None\<rparr>"
    by (simp_all add: w2_def Let_def 1 split: option.split)
  have 3: "effects w3 = effects w2" "call w3 = (call w2)\<lparr>remoteStream := None\<rparr>"
    by (simp_all add: w3_def split: option.split)
  have 4: "effects w4 = effects w3 @ (case remoteAudio (call w) of None \<Rightarrow> [] | Some a \<Rightarrow> [AudioRemoved a])"
    "call w4 = (call w3)\<lparr>remoteAudio := None\<rparr>"
    by (simp_all add: w4_def Let_def 1 2 3 split: option.split)
  have 5: "effects w5 = effects w4 @ (case call_socket (call w) of None \<Rightarrow> [] | Some k \<Rightarrow> [SocketClosed k])"
    "call w5 = (call w4)\<lparr>call_socket := None\<rparr>"
    by (simp_all add: w5_def Let_def 1 2 3 4 split: option.split)
  have 6: "call_pingInterval (call w5) = call_pingInterval (call w)"
    by (simp add: 1 2 3 4 5)
  have "call_cleanup w = (call_stopPingInterval w5)\<lparr>call := createCallSession (call_callbacks (call (call_stopPingInterval w5)))\<rparr>"
    unfolding call_cleanup_def w5_def w4_def w3_def w2_def w1_def Let_def ..
  then show ?thesis
    by (simp add: 1 2 3 4 5 6)
qed

lemma call_onclose_session:
  "call (call_onclose k w) = (call w)\<lparr>call_pingInterval := None\<rparr>"
  "effects (call_onclose k w) =
     effects w @ (case call_pingInterval (call w) of None \<Rightarrow> [] | Some i \<Rightarrow> [IntervalCleared i])"
  by (simp_all add: call_onclose_def)

lemma call_onerror_settled:
  assumes "awaiting w \<noteq> AwaitSocket k"
  shows "call (call_onerror k err w) = (call w)\<lparr>callStatus := ''error''\<rparr>"
    and "effects (call_onerror k err w) =
      effects w
      @ (case onCallStatus (call_callbacks (call w)) of None \<Rightarrow> [] | Some h \<Rightarrow> [StatusCallback h ''error''])
      @ (case onCallError (call_callbacks (call w)) of None \<Rightarrow> []
         | Some h \<Rightarrow> [ErrorCallback h (Some (or_else err ''Unable to connect voice''))])"
  using assms by (simp_all add: call_onerror_def Let_def)

lemma startCall_catch_session:
  "call (startCall_catch err w) = createCallSession (call_callbacks (call w))"
  "effects (startCall_catch err w) =
      effects w
      @ (case onCallStatus (call_callbacks (call w)) of None \<Rightarrow> [] | Some h \<Rightarrow> [StatusCallback h ''error''])
      @ (case onCallError (call_callbacks (call w)) of None \<Rightarrow> []
         | Some h \<Rightarrow> [ErrorCallback h (Some (or_else err ''Unable to connect voice''))])
      @ (case peerConnection (call w) of None \<Rightarrow> [] | Some p \<Rightarrow> [PeerClosed p])
      @ (case localStream (call w) of None \<Rightarrow> [] | Some s \<Rightarrow> map TrackStopped (streams w ! s))
      @ (case remoteAudio (call w) of None \<Rightarrow> [] | Some a \<Rightarrow> [AudioRemoved a])
      @ (case call_socket (call w) of None \<Rightarrow> [] | Some k \<Rightarrow> [SocketClosed k])
      @ (case call_pingInterval (call w) of None \<Rightarrow> [] | Some i \<Rightarrow> [IntervalCleared i])"
  by (simp_all add: startCall_catch_def Let_def call_cleanup_session call_cleanup_effects
      cong: option.case_cong)

lemma sendEvent_proj [simp]:
  "call (sendEvent f w) = call w" "effects (sendEvent f w) = effects w"
  "streams (sendEvent f w) = streams w" "awaiting (sendEvent f w) = awaiting w"
  by (simp_all add: sendEvent_def split: option.split)

lemma disconnectCall_effects:
  "effects (disconnectCall w) =
     effects w
     @ (case call_socket (call w) of None \<Rightarrow> [] | Some k \<Rightarrow> [SocketClosed k])
     @ (case onCallStatus (call_callbacks (call w)) of None \<Rightarrow> []
        | Some h \<Rightarrow> [StatusCallback h ''disconnected''])
     @ (case peerConnection (call w) of None \<Rightarrow> [] | Some p \<Rightarrow> [PeerClosed p])
     @ (case localStream (call w) of None \<Rightarrow> [] | Some s \<Rightarrow> map TrackStopped (streams w ! s))
     @ (case remoteAudio (call w) of None \<Rightarrow> [] | Some a \<Rightarrow> [AudioRemoved a])
     @ (case call_pingInterval (call w) of None \<Rightarrow> [] | Some i \<Rightarrow> [IntervalCleared i])"
  and disconnectCall_session:
  "call (disconnectCall w) = createCallSession (call_callbacks (call w))"
proof -
  define w1 where "w1 = sendEvent (frame_of_type ''end'') w"
  define w2 where "w2 = (case call_socket (call w1) of None \<Rightarrow> w1
               | Some k \<Rightarrow> (let v = close_call_socket k w1
                            in v\<lparr>call := (call v)\<lparr>call_socket := None\<rparr>\<rparr>))"
  define w3 where "w3 = setCallStatus ''disconnected'' w2"
  define w4 where "w4 = (case peerConnection (call w3) of None \<Rightarrow> w3
               | Some p \<Rightarrow> (let v = effect (PeerClosed p) w3
                            in v\<lparr>call := (call v)\<lparr>peerConnection := None\<rparr>\<rparr>))"
  define w5 where "w5 = (case localStream (call w4) of None \<Rightarrow> w4
               | Some s \<Rightarrow> (let v = stop_tracks (streams w4 ! s) w4
                            in v\<lparr>call := (call v)\<lparr>localStream := None\<rparr>\<rparr>))"
  have 1: "effects w1 = effects w" "call w1 = call w" "streams w1 = streams w"
    by (simp_all add: w1_def)
  have 2: "effects w2 = effects w1 @ (case call_socket (call w) of None \<Rightarrow> [] | Some k \<Rightarrow> [SocketClosed k])"
    "call w2 = (call w1)\<lparr>call_socket := None\<rparr>" "streams w2 = streams w1"
    by (simp_all add: w2_def Let_def 1 split: option.split)
  have 3: "effects w3 = effects w2 @ (case onCallStatus (call_callbacks (call w)) of None \<Rightarrow> []
        | Some h \<Rightarrow> [StatusCallback h ''disconnected''])"
    "call w3 = (call w2)\<lparr>callStatus := ''disconnected''\<rparr>" "streams w3 = streams w2"
    by (simp_all add: w3_def 1 2)
  have 4: "effects w4 = effects w3 @ (case peerConnection (call w) of None \<Rightarrow> [] | Some p \<Rightarrow> [PeerClosed p])"
    "call w4 = (call w3)\<lparr>peerConnection := None\<rparr>" "streams w4 = streams w3"
    by (simp_all add: w4_def Let_def 1 2 3 split: option.split)
  have 5: "effects w5 = effects w4 @ (case localStream (call w) of None \<Rightarrow> []
                                       | Some s \<Rightarrow> map TrackStopped (streams w ! s))"
    "call w5 = (call w4)\<lparr>localStream := None\<rparr>"
    by (simp_all add: w5_def Let_def 1 2 3 4 split: option.split)
  have d: "disconnectCall w = call_cleanup w5"
    unfolding disconnectCall_def w5_def w4_def w3_def w2_def w1_def Let_def ..
  show "effects (disconnectCall w) =
     effects w
     @ (case call_socket (call w) of None \<Rightarrow> [] | Some k \<Rightarrow> [SocketClosed k])
     @ (case onCallStatus (call_callbacks (call w)) of None \<Rightarrow> []
        | Some h \<Rightarrow> [StatusCallback h ''disconnected''])
     @ (case peerConnection (call w) of None \<Rightarrow> [] | Some p \<Rightarrow> [PeerClosed p])
     @ (case localStream (call w) of None \<Rightarrow> [] | Some s \<Rightarrow> map TrackStopped (streams w ! s))
     @ (case remoteAudio (call w) of None \<Rightarrow> [] | Some a \<Rightarrow> [AudioRemoved a])
     @ (case call_pingInterval (call w) of None \<Rightarrow> [] | Some i \<Rightarrow> [IntervalCleared i])"
    unfolding d call_cleanup_effects by (simp add: 1 2 3 4 5)
  show "call (disconnectCall w) = createCallSession (call_callbacks (call w))"
    unfolding d call_cleanup_session by (simp add: 1 2 3 4 5)
qed

text \<open>
  C8 fails on the code.  The offer has been sent and no answer received.  When the
  signaling socket closes, the only effect is that the ping interval is cleared: the
  status is still \<open>connecting\<close>, the track is not stopped, the peer connection and the
  socket are still held, and a later \<open>startCall\<close> returns at once.  When the socket
  raises an error, the status and error callbacks are called and nothing is torn down.
  The other ways a call ends do tear it down: an \<open>end\<close> event closes the socket and the
  peer connection and stops the track, and an error of the socket before it has opened
  fails \<open>startCall\<close>, whose \<open>catch\<close> block calls the callbacks and then cleans up.
\<close>

theorem signaling_failure_without_teardown:
  "callStatus (call (call_onclose 0 offer_sent)) = ''connecting''
   \<and> effects (call_onclose 0 offer_sent) = effects offer_sent @ [IntervalCleared 0]
   \<and> localStream (call (call_onclose 0 offer_sent)) = Some 0
   \<and> peerConnection (call (call_onclose 0 offer_sent)) = Some 0
   \<and> call_socket (call (call_onclose 0 offer_sent)) = Some 0
   \<and> startCall None (call_onclose 0 offer_sent) = call_onclose 0 offer_sent
   \<and> callStatus (call (call_onerror 0 None offer_sent)) = ''error''
   \<and> effects (call_onerror 0 None offer_sent) =
       effects offer_sent @ [StatusCallback 0 ''error'', ErrorCallback 1 (Some ''Unable to connect voice'')]
   \<and> localStream (call (call_onerror 0 None offer_sent)) = Some 0
   \<and> peerConnection (call (call_onerror 0 None offer_sent)) = Some 0
   \<and> effects (handleCallServerEvent end_call offer_sent) =
       effects offer_sent @
         [SocketClosed 0, StatusCallback 0 ''disconnected'', PeerClosed 0, TrackStopped 0,
          IntervalCleared 0]
   \<and> callStatus (call (handleCallServerEvent end_call offer_sent)) = ''disconnected''
   \<and> effects (call_onerror 0 None call_started) =
       [StatusCallback 0 ''connecting'', ErrorCallback 1 None,
        StatusCallback 0 ''error'', ErrorCallback 1 (Some ''Unable to connect voice''),
        StatusCallback 0 ''error'', ErrorCallback 1 (Some ''Unable to connect voice''),
        PeerClosed 0, TrackStopped 0, SocketClosed 0]
   \<and> callStatus (call (call_onerror 0 None call_started)) = ''disconnected''"
proof -
  have a: "awaiting offer_sent \<noteq> AwaitSocket 0" by (simp add: offer_sent_world)
  have b: "awaiting call_started = AwaitSocket 0" by (simp add: call_started_world)
  have c: "effects (call_onerror 0 None call_started) =
       [StatusCallback 0 ''connecting'', ErrorCallback 1 None,
        StatusCallback 0 ''error'', ErrorCallback 1 (Some ''Unable to connect voice''),
        StatusCallback 0 ''error'', ErrorCallback 1 (Some ''Unable to connect voice''),
        PeerClosed 0, TrackStopped 0, SocketClosed 0]"
    "callStatus (call (call_onerror 0 None call_started)) = ''disconnected''"
    by (simp_all add: call_onerror_def Let_def b startCall_catch_session)
       (simp_all add: call_started_world or_else_def createCallSession_def)
  have d: "callStatus (call (call_onclose 0 offer_sent)) = ''connecting''"
    by (simp add: call_onclose_session) (simp add: offer_sent_world)
  have e: "startCall None (call_onclose 0 offer_sent) = call_onclose 0 offer_sent"
    by (simp add: startCall_def d)
  have f: "effects (handleCallServerEvent end_call offer_sent) =
       effects offer_sent @
         [SocketClosed 0, StatusCallback 0 ''disconnected'', PeerClosed 0, TrackStopped 0,
          IntervalCleared 0]"
    "callStatus (call (handleCallServerEvent end_call offer_sent)) = ''disconnected''"
    by (simp_all add: handleCallServerEvent_def disconnectCall_effects disconnectCall_session)
       (simp_all add: offer_sent_world createCallSession_def)
  show ?thesis
    using c d e f
    by (simp add: call_onclose_session call_onerror_settled [OF a])
       (simp add: offer_sent_world or_else_def)
qed

end
